theory Spec2Isabelle
  imports Complex_Main
begin

section \<open>Storefront data\<close>

text \<open>
  The gift guide grid (\<^verbatim>\<open>assets/gift-guide-grid.js\<close>) works on the product JSON served by
  \<^verbatim>\<open>/products/{handle}.js\<close>.  A JavaScript Number is an IEEE 754 double: a sign and an exact
  rational magnitude (so that \<open>-0\<close> is a value of its own), an infinity, or NaN.  A price
  arrives as a number or a string, or is missing (\<^verbatim>\<open>null\<close>, \<^verbatim>\<open>undefined\<close>).  Strings are
  ASCII strings; an absent or \<^verbatim>\<open>null\<close> property is \<open>None\<close>.
\<close>

datatype number = Num (negative: bool) (magnitude: rat) | Infinity bool | NaN

datatype jsvalue = JNumber number | JString string | JNull | JUndefined

record variant =
  variant_id :: int
  variant_price :: jsvalue
  available :: bool
  option1 :: "string option"
  option2 :: "string option"
  option3 :: "string option"
  variant_featured_image :: "string option"
  featured_image_id :: "int option"

text \<open>
  An entry of \<^verbatim>\<open>options_with_values[k].values\<close> is an object \<^verbatim>\<open>{name, available}\<close> or a
  plain string (the renderer reads \<^verbatim>\<open>optionValue.name || optionValue\<close>).
\<close>

datatype option_value = ValueObject string "bool option" | ValueString string

record product_option =
  name :: string
  values_of :: "option_value list"

record image =
  image_id :: int
  src :: string

record product =
  title :: string
  product_price :: jsvalue
  body_html :: "string option"
  variants :: "variant list option"
  options_with_values :: "product_option list option"
  options :: "product_option list option"
  featured_image :: "string option"
  images :: "image list option"

text \<open>The cart JSON of \<^verbatim>\<open>/cart.js\<close>, as far as the drawer reads it.\<close>

record cart_item =
  item_title :: string
  item_variant_title :: "string option"
  item_image :: string
  item_quantity :: nat
  final_price :: jsvalue

record cart =
  item_count :: nat
  items :: "cart_item list"
  total_price :: jsvalue

subsection \<open>JavaScript truthiness and array methods\<close>

text \<open>\<^verbatim>\<open>!x\<close> on a string-or-undefined value: \<^verbatim>\<open>undefined\<close>, \<^verbatim>\<open>null\<close> and \<^verbatim>\<open>''\<close> are falsy.\<close>

definition truthy :: "string option \<Rightarrow> bool" where
  "truthy x = (case x of None \<Rightarrow> False | Some t \<Rightarrow> t \<noteq> [])"

text \<open>\<^verbatim>\<open>!price\<close>: both zeros, NaN, the empty string, \<^verbatim>\<open>null\<close> and \<^verbatim>\<open>undefined\<close> are falsy.\<close>

fun falsy :: "jsvalue \<Rightarrow> bool" where
  "falsy (JNumber (Num s a)) = (a = 0)"
| "falsy (JNumber (Infinity s)) = False"
| "falsy (JNumber NaN) = True"
| "falsy (JString s) = (s = [])"
| "falsy JNull = True"
| "falsy JUndefined = True"

text \<open>\<^verbatim>\<open>a || b\<close> on two values.\<close>

definition js_or :: "jsvalue \<Rightarrow> jsvalue \<Rightarrow> jsvalue" where
  "js_or a b = (if falsy a then b else a)"

text \<open>\<^verbatim>\<open>xs && xs.length > 0\<close> on an array that may be absent.\<close>

definition present :: "'a list option \<Rightarrow> bool" where
  "present xs = (case xs of None \<Rightarrow> False | Some l \<Rightarrow> length l > 0)"

definition elements :: "'a list option \<Rightarrow> 'a list" where
  "elements xs = (case xs of None \<Rightarrow> [] | Some l \<Rightarrow> l)"

text \<open>\<^verbatim>\<open>Array.prototype.every\<close> with the callback's index argument.\<close>

fun every_from :: "('a \<Rightarrow> nat \<Rightarrow> bool) \<Rightarrow> nat \<Rightarrow> 'a list \<Rightarrow> bool" where
  "every_from f i [] = True"
| "every_from f i (x # xs) = (f x i \<and> every_from f (Suc i) xs)"

definition every :: "('a \<Rightarrow> nat \<Rightarrow> bool) \<Rightarrow> 'a list \<Rightarrow> bool" where
  "every f xs = every_from f 0 xs"

text \<open>\<^verbatim>\<open>Array.prototype.some\<close>.\<close>

fun some :: "('a \<Rightarrow> bool) \<Rightarrow> 'a list \<Rightarrow> bool" where
  "some f [] = False"
| "some f (x # xs) = (f x \<or> some f xs)"

text \<open>\<^verbatim>\<open>Array.prototype.findIndex\<close>; the result \<open>-1\<close> is \<open>None\<close>.\<close>

fun findIndex_from :: "('a \<Rightarrow> bool) \<Rightarrow> nat \<Rightarrow> 'a list \<Rightarrow> nat option" where
  "findIndex_from f i [] = None"
| "findIndex_from f i (x # xs) = (if f x then Some i else findIndex_from f (Suc i) xs)"

definition findIndex :: "('a \<Rightarrow> bool) \<Rightarrow> 'a list \<Rightarrow> nat option" where
  "findIndex f xs = findIndex_from f 0 xs"

text \<open>\<^verbatim>\<open>Array.prototype.forEach\<close> with the index argument, the callback updating a state.\<close>

fun forEach_from :: "('a \<Rightarrow> nat \<Rightarrow> 's \<Rightarrow> 's) \<Rightarrow> nat \<Rightarrow> 'a list \<Rightarrow> 's \<Rightarrow> 's" where
  "forEach_from f i [] s = s"
| "forEach_from f i (x # xs) s = forEach_from f (Suc i) xs (f x i s)"

definition forEach :: "('a \<Rightarrow> nat \<Rightarrow> 's \<Rightarrow> 's) \<Rightarrow> 'a list \<Rightarrow> 's \<Rightarrow> 's" where
  "forEach f xs s = forEach_from f 0 xs s"

text \<open>\<^verbatim>\<open>[...new Set(xs)]\<close>: the distinct elements in the order of their first occurrence.\<close>

definition unique :: "'a list \<Rightarrow> 'a list" where
  "unique xs = rev (remdups (rev xs))"

text \<open>
  \<^verbatim>\<open>variant[`option${n}`]\<close>: a variant has the properties \<^verbatim>\<open>option1\<close>, \<^verbatim>\<open>option2\<close> and
  \<^verbatim>\<open>option3\<close> only, any other read is \<^verbatim>\<open>undefined\<close>.
\<close>

definition variant_option :: "variant \<Rightarrow> nat \<Rightarrow> string option" where
  "variant_option v n =
     (if n = 1 then option1 v else if n = 2 then option2 v else if n = 3 then option3 v
      else None)"

subsection \<open>Strings\<close>

text \<open>\<^verbatim>\<open>String.prototype.toLowerCase\<close> on ASCII.\<close>

definition lower_char :: "char \<Rightarrow> char" where
  "lower_char c =
     (case map_of (zip ''ABCDEFGHIJKLMNOPQRSTUVWXYZ'' ''abcdefghijklmnopqrstuvwxyz'') c of
        None \<Rightarrow> c
      | Some d \<Rightarrow> d)"

definition toLowerCase :: "string \<Rightarrow> string" where
  "toLowerCase s = map lower_char s"

text \<open>\<^verbatim>\<open>s.includes(t)\<close>: \<open>t\<close> occurs in \<open>s\<close> as a substring.\<close>

fun string_includes :: "string \<Rightarrow> string \<Rightarrow> bool" where
  "string_includes [] t = (t = [])"
| "string_includes (c # cs) t = (take (length t) (c # cs) = t \<or> string_includes cs t)"

text \<open>The decimal digits of a natural number (\<^verbatim>\<open>String(n)\<close>).\<close>

definition digit_char :: "nat \<Rightarrow> char" where
  "digit_char d = ''0123456789'' ! d"

fun decimal_digits :: "nat \<Rightarrow> string" where
  "decimal_digits n =
     (if n < 10 then [digit_char n] else decimal_digits (n div 10) @ [digit_char (n mod 10)])"

declare decimal_digits.simps [simp del]

section \<open>Numbers\<close>

subsection \<open>Rounding to a double\<close>

text \<open>
  The Number value for a non-negative rational: round to nearest, ties to even, on a 53-bit
  significand, with gradual underflow below \<open>2\<^sup>-\<^sup>1\<^sup>0\<^sup>2\<^sup>2\<close> and overflow to infinity from
  \<open>2\<^sup>1\<^sup>0\<^sup>2\<^sup>4 = (2\<^sup>3\<^sup>2)\<^sup>3\<^sup>2\<close> on.
\<close>

definition pow2 :: "int \<Rightarrow> rat" where
  "pow2 e = (if e \<ge> 0 then 2 ^ nat e else 1 / 2 ^ nat (- e))"

fun bit_length :: "nat \<Rightarrow> nat" where
  "bit_length n = (if n = 0 then 0 else Suc (bit_length (n div 2)))"

declare bit_length.simps [simp del]

text \<open>\<open>\<lfloor>log\<^sub>2 a\<rfloor>\<close> for \<open>a > 0\<close>.\<close>

definition floor_log2 :: "rat \<Rightarrow> int" where
  "floor_log2 a =
     (if a \<ge> 1 then int (bit_length (nat \<lfloor>a\<rfloor>)) - 1
      else - int (bit_length (nat (\<lceil>1 / a\<rceil> - 1))))"

definition round_ties_even :: "rat \<Rightarrow> int" where
  "round_ties_even r =
     (let f = \<lfloor>r\<rfloor>; d = r - of_int f
      in if d < 1 / 2 then f else if d > 1 / 2 then f + 1 else if even f then f else f + 1)"

definition to_double :: "bool \<Rightarrow> rat \<Rightarrow> number" where
  "to_double s a =
     (if a = 0 then Num s 0
      else let e = max (floor_log2 a) (- 1022) - 52;
               r = of_int (round_ties_even (a / pow2 e)) * pow2 e
           in if r \<ge> (2 ^ 32) ^ 32 then Infinity s else Num s r)"

subsection \<open>Arithmetic and comparison\<close>

fun number_times :: "number \<Rightarrow> number \<Rightarrow> number" where
  "number_times (Num s a) (Num t b) = to_double (s \<noteq> t) (a * b)"
| "number_times (Num s a) (Infinity t) = (if a = 0 then NaN else Infinity (s \<noteq> t))"
| "number_times (Infinity s) (Num t b) = (if b = 0 then NaN else Infinity (s \<noteq> t))"
| "number_times (Infinity s) (Infinity t) = Infinity (s \<noteq> t)"
| "number_times NaN y = NaN"
| "number_times x NaN = NaN"

fun number_divide :: "number \<Rightarrow> number \<Rightarrow> number" where
  "number_divide (Num s a) (Num t b) =
     (if b = 0 then (if a = 0 then NaN else Infinity (s \<noteq> t))
      else to_double (s \<noteq> t) (a / b))"
| "number_divide (Num s a) (Infinity t) = Num (s \<noteq> t) 0"
| "number_divide (Infinity s) (Num t b) = Infinity (s \<noteq> t)"
| "number_divide (Infinity s) (Infinity t) = NaN"
| "number_divide NaN y = NaN"
| "number_divide x NaN = NaN"

definition signed :: "bool \<Rightarrow> rat \<Rightarrow> rat" where
  "signed s a = (if s then - a else a)"

text \<open>\<^verbatim>\<open>x > y\<close>; a comparison with NaN is false.\<close>

fun number_greater :: "number \<Rightarrow> number \<Rightarrow> bool" where
  "number_greater (Num s a) (Num t b) = (signed t b < signed s a)"
| "number_greater (Num s a) (Infinity t) = t"
| "number_greater (Infinity s) (Num t b) = (\<not> s)"
| "number_greater (Infinity s) (Infinity t) = (\<not> s \<and> t)"
| "number_greater NaN y = False"
| "number_greater x NaN = False"

subsection \<open>parseFloat\<close>

text \<open>
  \<^verbatim>\<open>parseFloat\<close> skips leading white space and reads the longest prefix that is a
  \<^verbatim>\<open>StrDecimalLiteral\<close>: an optional sign, then \<^verbatim>\<open>Infinity\<close> or decimal digits with an
  optional fraction and an optional exponent; with no such prefix the result is NaN.
\<close>

definition is_space :: "char \<Rightarrow> bool" where
  "is_space c \<longleftrightarrow> c \<in> set [CHR 0x09, CHR 0x0A, CHR 0x0B, CHR 0x0C, CHR 0x0D, CHR '' '']"

definition is_digit :: "char \<Rightarrow> bool" where
  "is_digit c \<longleftrightarrow> c \<in> set ''0123456789''"

definition digit_value :: "char \<Rightarrow> nat" where
  "digit_value c = (case map_of (zip ''0123456789'' [0 ..< 10]) c of None \<Rightarrow> 0 | Some d \<Rightarrow> d)"

definition digits_value :: "string \<Rightarrow> nat" where
  "digits_value ds = foldl (\<lambda>n c. 10 * n + digit_value c) 0 ds"

definition pow10 :: "int \<Rightarrow> rat" where
  "pow10 e = (if e \<ge> 0 then 10 ^ nat e else 1 / 10 ^ nat (- e))"

text \<open>The value of an \<^verbatim>\<open>ExponentPart\<close> at the head of the rest, \<open>0\<close> when there is none.\<close>

definition exponent_part :: "string \<Rightarrow> int" where
  "exponent_part r =
     (case r of
        [] \<Rightarrow> 0
      | c # r1 \<Rightarrow>
          if c = CHR ''e'' \<or> c = CHR ''E'' then
            (case r1 of
               [] \<Rightarrow> 0
             | d # r2 \<Rightarrow>
                 if d = CHR ''-'' then
                   (if takeWhile is_digit r2 = [] then 0
                    else - int (digits_value (takeWhile is_digit r2)))
                 else if d = CHR ''+'' then int (digits_value (takeWhile is_digit r2))
                 else int (digits_value (takeWhile is_digit r1)))
          else 0)"

definition parseFloat :: "string \<Rightarrow> number" where
  "parseFloat str =
     (let trimmed = dropWhile is_space str;
          neg = (case trimmed of [] \<Rightarrow> False | c # r \<Rightarrow> c = CHR ''-'');
          unsigned = (case trimmed of
                        [] \<Rightarrow> []
                      | c # r \<Rightarrow> if c = CHR ''-'' \<or> c = CHR ''+'' then r else trimmed)
      in if take 8 unsigned = ''Infinity'' then Infinity neg
         else
           let int_digits = takeWhile is_digit unsigned;
               r1 = dropWhile is_digit unsigned;
               has_point = (case r1 of [] \<Rightarrow> False | c # r \<Rightarrow> c = CHR ''.'');
               frac_digits = (if has_point then takeWhile is_digit (tl r1) else []);
               r2 = (if has_point then dropWhile is_digit (tl r1) else r1)
           in if int_digits = [] \<and> frac_digits = [] then NaN
              else to_double neg
                     ((of_nat (digits_value int_digits)
                        + of_nat (digits_value frac_digits) / 10 ^ length frac_digits)
                      * pow10 (exponent_part r2)))"

section \<open>The host\<close>

text \<open>
  What the browser provides and the component only calls: the currency formatter
  \<^verbatim>\<open>new Intl.NumberFormat('en-US', {style: 'currency', currency: 'USD'}).format\<close>, which
  does not throw on a Number (so that the \<^verbatim>\<open>toFixed\<close> fallback of \<^verbatim>\<open>formatPrice\<close> is never
  entered), and the text content of an HTML fragment parsed by the DOM (\<^verbatim>\<open>stripHtml\<close>).
\<close>

record host =
  currency_format :: "number \<Rightarrow> string"
  stripHtml :: "string \<Rightarrow> string"

section \<open>Price formatting\<close>

definition formatPrice :: "host \<Rightarrow> jsvalue \<Rightarrow> string" where
  "formatPrice h price =
     (if falsy price then []
      else
        let priceValue = (case price of
                            JString s \<Rightarrow> parseFloat s
                          | JNumber n \<Rightarrow> n
                          | JNull \<Rightarrow> NaN
                          | JUndefined \<Rightarrow> NaN);
            priceInCents = (if number_greater priceValue (Num False 1000) then priceValue
                            else number_times priceValue (Num False 100))
        in currency_format h (number_divide priceInCents (Num False 100)))"

text \<open>
  A rendering of a US dollar amount for en-US: the amount rounded to cents, halves away
  from zero, the integer part grouped in thousands.  The rounding is that of ECMA-402, on
  the exact value of the double; an engine that rounds the shortest decimal form of the
  double instead renders an amount such as 1.005 differently, and the amounts rendered
  below the same.
\<close>

function group_thousands :: "string \<Rightarrow> string" where
  "group_thousands ds =
     (if length ds \<le> 3 then ds
      else group_thousands (take (length ds - 3) ds) @ '','' @ drop (length ds - 3) ds)"
  by pat_completeness auto
termination
  by (relation "measure length") auto

declare group_thousands.simps [simp del]

definition en_US_currency :: "number \<Rightarrow> string" where
  "en_US_currency x =
     (case x of
        NaN \<Rightarrow> ''$NaN''
      | Infinity s \<Rightarrow> (if s then ''-'' else []) @ ''$'' @ [CHR 0xE2, CHR 0x88, CHR 0x9E]
      | Num s a \<Rightarrow>
          let cents = nat \<lfloor>a * 100 + 1 / 2\<rfloor>
          in (if s then ''-'' else []) @ ''$'' @ group_thousands (decimal_digits (cents div 100))
             @ ''.'' @ [digit_char (cents mod 100 div 10), digit_char (cents mod 10)])"

section \<open>The component\<close>

text \<open>
  What the popup shows: the markup that \<^verbatim>\<open>renderProductPopup\<close> assigns to the popup
  content, one field for each interpolated expression of the template.
\<close>

record variant_button =
  data_option :: string
  data_value :: string
  is_selected :: bool
  is_disabled :: bool

record variant_group =
  group_label :: string
  group_buttons :: "variant_button list"

record popup_markup =
  popup_image :: string
  popup_title :: string
  popup_price :: string
  popup_description :: "string option"
  popup_variants :: "variant_group list"
  add_to_cart_disabled :: bool
  data_variant_id :: "int option"
  add_to_cart_text :: string

text \<open>
  The cart drawer of the second listing of the file: the parts of its subtree that
  \<^verbatim>\<open>updateCartDrawer\<close> writes.
\<close>

record drawer_row =
  row_image :: string
  row_title :: string
  row_variant :: string
  row_price :: string
  row_quantity :: nat

record drawer =
  items_display :: string
  empty_display :: string
  checkout_disabled :: bool
  drawer_rows :: "drawer_row list"
  subtotal_amount :: string

text \<open>
  Everything else the component does to its surroundings is recorded in order: console
  output, requests, toast notifications, and the calls that only start further requests.
\<close>

datatype event =
    ConsoleWarn string
  | ConsoleError string
  | Fetch string
  | CartAdd int nat
  | UpdateCartCount
  | TriggerCartUpdate
  | SuccessMessage string
  | ErrorMessage string
  | ShowCartDrawer

datatype error = Error string | TypeError | SyntaxError | NetworkError

text \<open>
  The outcome of a \<^verbatim>\<open>fetch\<close> followed by \<^verbatim>\<open>response.json()\<close>: the request is rejected,
  the response is not \<^verbatim>\<open>ok\<close> (with its status and the \<^verbatim>\<open>description\<close> of its error body, if
  any), the body of an \<^verbatim>\<open>ok\<close> response parses, or it does not.
\<close>

datatype 'a fetched = Rejected | NotOk nat "string option" | Parsed 'a | Unparsable

type_synonym selection = "string \<rightharpoonup> string"

text \<open>
  The state of one component: \<^verbatim>\<open>this.currentProduct\<close>, the own properties of the object
  \<^verbatim>\<open>this.selectedVariants\<close>, whether the refs \<^verbatim>\<open>popupOverlay\<close> and \<^verbatim>\<open>popupContent\<close> are
  bound, the popup content, the \<^verbatim>\<open>active\<close> class of the overlay, the \<^verbatim>\<open>overflow\<close> style of
  the document body, and the record of effects.
\<close>

record component =
  currentProduct :: "product option"
  selectedVariants :: selection
  ref_popupOverlay :: bool
  ref_popupContent :: bool
  popupContent :: "popup_markup option"
  popup_active :: bool
  body_overflow :: string
  trace :: "event list"

text \<open>A method returns normally or throws, and leaves a component state either way.\<close>

type_synonym 'a outcome = "(error + 'a) \<times> component"

definition emit :: "event \<Rightarrow> component \<Rightarrow> component" where
  "emit e this = this\<lparr>trace := trace this @ [e]\<rparr>"

section \<open>The selection object\<close>

text \<open>
  \<^verbatim>\<open>this.selectedVariants\<close> is a plain object, created as \<^verbatim>\<open>{}\<close>, and used as a
  dictionary from option name to value.  A read \<^verbatim>\<open>this.selectedVariants[key]\<close> finds the
  own property of that name, or else the property that every plain object inherits from
  \<^verbatim>\<open>Object.prototype\<close>, or else \<^verbatim>\<open>undefined\<close>.  The inherited values are functions, and
  for \<^verbatim>\<open>__proto__\<close> the prototype object itself: they are truthy and equal to no string.
\<close>

definition prototype_properties :: "string list" where
  "prototype_properties =
     [''constructor'', ''hasOwnProperty'', ''isPrototypeOf'', ''propertyIsEnumerable'',
      ''toLocaleString'', ''toString'', ''valueOf'', ''__defineGetter__'',
      ''__defineSetter__'', ''__lookupGetter__'', ''__lookupSetter__'', ''__proto__'']"

datatype property = Missing | Own string | Inherited

definition read_property :: "selection \<Rightarrow> string \<Rightarrow> property" where
  "read_property sel key =
     (case sel key of
        Some v \<Rightarrow> Own v
      | None \<Rightarrow> if key \<in> set prototype_properties then Inherited else Missing)"

text \<open>
  An assignment \<^verbatim>\<open>this.selectedVariants[key] = value\<close> of a string creates or overwrites
  the own property, except under the key \<^verbatim>\<open>__proto__\<close>: with no own property of that name
  the assignment reaches the inherited setter, which ignores a string.
\<close>

definition write_property :: "string \<Rightarrow> string \<Rightarrow> selection \<Rightarrow> selection" where
  "write_property key v sel =
     (if key = ''__proto__'' \<and> sel key = None then sel else sel(key \<mapsto> v))"

text \<open>\<^verbatim>\<open>!!selectedValue\<close> on the result of a read.\<close>

definition truthy_property :: "property \<Rightarrow> bool" where
  "truthy_property x = (case x of Missing \<Rightarrow> False | Own v \<Rightarrow> v \<noteq> [] | Inherited \<Rightarrow> True)"

text \<open>
  \<^verbatim>\<open>variant[`option${n}`] === selectedValue\<close>, a variant's value being a string or
  missing.  (The source compares only once \<^verbatim>\<open>selectedValue\<close> is truthy.)
\<close>

definition strict_equal :: "string option \<Rightarrow> property \<Rightarrow> bool" where
  "strict_equal a x =
     (case x of Missing \<Rightarrow> a = None | Own v \<Rightarrow> a = Some v | Inherited \<Rightarrow> False)"

section \<open>Variant selection\<close>

text \<open>The choice \<^verbatim>\<open>variants.find(v => v.available) || variants[0]\<close> of a non-empty array.\<close>

definition first_available :: "variant list \<Rightarrow> variant option" where
  "first_available vs =
     (case find available vs of
        Some v \<Rightarrow> Some v
      | None \<Rightarrow> (case vs of [] \<Rightarrow> None | v # _ \<Rightarrow> Some v))"

text \<open>\<^verbatim>\<open>this.currentProduct.options[k]?.name || fallback\<close>\<close>

definition legacy_name :: "product_option list \<Rightarrow> nat \<Rightarrow> string \<Rightarrow> string" where
  "legacy_name opts k fallback =
     (if k < length opts \<and> name (opts ! k) \<noteq> [] then name (opts ! k) else fallback)"

definition assign_if :: "string option \<Rightarrow> string \<Rightarrow> selection \<Rightarrow> selection" where
  "assign_if optionValue key sel =
     (case optionValue of
        None \<Rightarrow> sel
      | Some v \<Rightarrow> if v \<noteq> [] then write_property key v sel else sel)"

text \<open>
  \<^verbatim>\<open>initializeVariants\<close> (lines 121--144).  It reads \<^verbatim>\<open>this.currentProduct.variants\<close>
  after the reset, which throws when no product is loaded.
\<close>

definition initializeVariants :: "component \<Rightarrow> unit outcome" where
  "initializeVariants this0 =
     (let this = this0\<lparr>selectedVariants := Map.empty\<rparr>
      in case currentProduct this of
           None \<Rightarrow> (Inl TypeError, this)
         | Some p \<Rightarrow>
             if present (variants p) then
               (case first_available (elements (variants p)) of
                  None \<Rightarrow> (Inr (), this)
                | Some firstAvailableVariant \<Rightarrow>
                    if present (options_with_values p) then
                      (Inr (), this\<lparr>selectedVariants :=
                         forEach (\<lambda>opt index.
                              assign_if (variant_option firstAvailableVariant (index + 1))
                                (name opt))
                           (elements (options_with_values p)) (selectedVariants this)\<rparr>)
                    else if present (options p) then
                      (Inr (), this\<lparr>selectedVariants :=
                         assign_if (option3 firstAvailableVariant)
                           (legacy_name (elements (options p)) 2 ''Option 3'')
                           (assign_if (option2 firstAvailableVariant)
                              (legacy_name (elements (options p)) 1 ''Option 2'')
                              (assign_if (option1 firstAvailableVariant)
                                 (legacy_name (elements (options p)) 0 ''Option 1'')
                                 (selectedVariants this)))\<rparr>)
                    else (Inr (), this))
             else (Inr (), this))"

text \<open>The callback of \<^verbatim>\<open>every\<close> in \<^verbatim>\<open>getSelectedVariant\<close>, the same for both schemas.\<close>

definition slot_agrees :: "selection \<Rightarrow> variant \<Rightarrow> product_option \<Rightarrow> nat \<Rightarrow> bool" where
  "slot_agrees sel v opt index =
     (let selectedValue = read_property sel (name opt)
      in \<not> truthy_property selectedValue
         \<or> strict_equal (variant_option v (index + 1)) selectedValue)"

text \<open>\<^verbatim>\<open>getSelectedVariant\<close> (lines 389--411); \<^verbatim>\<open>null\<close> and \<^verbatim>\<open>undefined\<close> are \<open>None\<close>.\<close>

definition getSelectedVariant :: "component \<Rightarrow> variant option" where
  "getSelectedVariant this =
     (case currentProduct this of
        None \<Rightarrow> None
      | Some p \<Rightarrow>
          (case variants p of
             None \<Rightarrow> None
           | Some vs \<Rightarrow>
               find (\<lambda>v.
                  if present (options_with_values p)
                  then every (slot_agrees (selectedVariants this) v)
                         (elements (options_with_values p))
                  else if present (options p)
                  then every (slot_agrees (selectedVariants this) v) (elements (options p))
                  else False) vs))"

text \<open>The callback of the inner \<^verbatim>\<open>every\<close> in \<^verbatim>\<open>isVariantAvailable\<close>.\<close>

definition other_slot_agrees ::
    "selection \<Rightarrow> string \<Rightarrow> variant \<Rightarrow> product_option \<Rightarrow> nat \<Rightarrow> bool" where
  "other_slot_agrees sel optionName v opt index =
     (if name opt = optionName then True
      else let selectedValue = read_property sel (name opt)
           in \<not> truthy_property selectedValue
              \<or> strict_equal (variant_option v (index + 1)) selectedValue)"

text \<open>The callback of \<^verbatim>\<open>some\<close> in \<^verbatim>\<open>isVariantAvailable\<close>, for one schema.\<close>

definition carries_value ::
    "product_option list \<Rightarrow> selection \<Rightarrow> string \<Rightarrow> string \<Rightarrow> variant \<Rightarrow> bool" where
  "carries_value opts sel optionName optionValue v =
     (case findIndex (\<lambda>opt. name opt = optionName) opts of
        None \<Rightarrow> False
      | Some optionIndex \<Rightarrow>
          if variant_option v (optionIndex + 1) \<noteq> Some optionValue then False
          else every (other_slot_agrees sel optionName v) opts)"

text \<open>\<^verbatim>\<open>isVariantAvailable\<close> (lines 416--458).\<close>

definition isVariantAvailable :: "component \<Rightarrow> string \<Rightarrow> string \<Rightarrow> bool" where
  "isVariantAvailable this optionName optionValue =
     (case currentProduct this of
        None \<Rightarrow> False
      | Some p \<Rightarrow>
          (case variants p of
             None \<Rightarrow> False
           | Some vs \<Rightarrow>
               if present (options_with_values p)
               then some (carries_value (elements (options_with_values p))
                            (selectedVariants this) optionName optionValue) vs
               else if present (options p)
               then some (carries_value (elements (options p))
                            (selectedVariants this) optionName optionValue) vs
               else False))"

section \<open>The popup\<close>

text \<open>\<^verbatim>\<open>getProductImage\<close> (lines 215--241).\<close>

definition getProductImage :: "product \<Rightarrow> variant option \<Rightarrow> string" where
  "getProductImage p selectedVariant =
     (let from_product =
            (if truthy (featured_image p) then the (featured_image p)
             else if present (images p) then src (hd (elements (images p)))
             else ''https://via.placeholder.com/400x400?text=Product+Image'')
      in case selectedVariant of
           None \<Rightarrow> from_product
         | Some v \<Rightarrow>
             if truthy (variant_featured_image v) then the (variant_featured_image v)
             else
               (case (featured_image_id v, images p) of
                  (Some i, Some imgs) \<Rightarrow>
                    if i \<noteq> 0 then
                      (case find (\<lambda>img. image_id img = i) imgs of
                         Some variantImage \<Rightarrow> src variantImage
                       | None \<Rightarrow> from_product)
                    else from_product
                | _ \<Rightarrow> from_product))"

text \<open>\<^verbatim>\<open>renderVariantOptionsWithValues\<close> (lines 265--300).\<close>

definition value_button :: "selection \<Rightarrow> string \<Rightarrow> option_value \<Rightarrow> variant_button" where
  "value_button sel optionName optionValue =
     (let named = (case optionValue of
                     ValueObject n a \<Rightarrow> if n \<noteq> [] then Some n else None
                   | ValueString s \<Rightarrow> Some s);
          isAvailable = (case optionValue of
                           ValueObject n a \<Rightarrow> a \<noteq> Some False
                         | ValueString s \<Rightarrow> True)
      in \<lparr>data_option = optionName,
          data_value = (case named of None \<Rightarrow> ''[object Object]'' | Some s \<Rightarrow> s),
          is_selected = (case named of
                           None \<Rightarrow> False
                         | Some s \<Rightarrow> read_property sel optionName = Own s),
          is_disabled = (\<not> isAvailable)\<rparr>)"

definition renderVariantOptionsWithValues :: "component \<Rightarrow> product \<Rightarrow> variant_group list" where
  "renderVariantOptionsWithValues this p =
     map (\<lambda>opt. \<lparr>group_label = name opt,
                  group_buttons = map (value_button (selectedVariants this) (name opt))
                                      (values_of opt)\<rparr>)
       (elements (options_with_values p))"

text \<open>
  \<^verbatim>\<open>renderVariantOptionsLegacy\<close> (lines 305--340); \<^verbatim>\<open>variants.map\<close> throws when the
  product has no \<^verbatim>\<open>variants\<close>.
\<close>

definition legacy_values :: "variant list \<Rightarrow> nat \<Rightarrow> string list" where
  "legacy_values vs index =
     unique (map the (filter truthy (map (\<lambda>v. variant_option v (index + 1)) vs)))"

definition renderVariantOptionsLegacy ::
    "component \<Rightarrow> product \<Rightarrow> error + variant_group list" where
  "renderVariantOptionsLegacy this p =
     (case variants p of
        None \<Rightarrow> Inl TypeError
      | Some vs \<Rightarrow>
          Inr (map (\<lambda>(opt, index).
                      \<lparr>group_label = name opt,
                       group_buttons =
                         map (\<lambda>v. \<lparr>data_option = name opt,
                                    data_value = v,
                                    is_selected =
                                      (read_property (selectedVariants this) (name opt)
                                       = Own v),
                                    is_disabled = (\<not> isVariantAvailable this (name opt) v)\<rparr>)
                           (legacy_values vs index)\<rparr>)
                 (zip (elements (options p)) [0 ..< length (elements (options p))])))"

text \<open>\<^verbatim>\<open>renderVariantOptions\<close> (lines 246--260); the empty string is the empty list.\<close>

definition renderVariantOptions :: "component \<Rightarrow> error + variant_group list" where
  "renderVariantOptions this =
     (case currentProduct this of
        None \<Rightarrow> Inr []
      | Some p \<Rightarrow>
          if present (options_with_values p) then Inr (renderVariantOptionsWithValues this p)
          else if present (options p) then renderVariantOptionsLegacy this p
          else Inr [])"

text \<open>
  \<^verbatim>\<open>renderProductPopup\<close> (lines 153--203): \<open>popup_for\<close> is its template.  The template is
  evaluated before the assignment to \<^verbatim>\<open>innerHTML\<close>, so an exception leaves the content as
  it was.
\<close>

definition popup_for :: "host \<Rightarrow> product \<Rightarrow> variant option \<Rightarrow> variant_group list \<Rightarrow> popup_markup" where
  "popup_for h p selectedVariant groups =
     \<lparr>popup_image = getProductImage p selectedVariant,
      popup_title = title p,
      popup_price =
        formatPrice h
          (js_or (case selectedVariant of None \<Rightarrow> JUndefined | Some v \<Rightarrow> variant_price v)
                 (product_price p)),
      popup_description =
        (if truthy (body_html p) then Some (stripHtml h (the (body_html p))) else None),
      popup_variants = groups,
      add_to_cart_disabled =
        (case selectedVariant of None \<Rightarrow> True | Some v \<Rightarrow> \<not> available v),
      data_variant_id =
        (case selectedVariant of
           None \<Rightarrow> None
         | Some v \<Rightarrow> if variant_id v \<noteq> 0 then Some (variant_id v) else None),
      add_to_cart_text =
        (case selectedVariant of
           None \<Rightarrow> ''OUT OF STOCK''
         | Some v \<Rightarrow> if available v then ''ADD TO CART'' else ''OUT OF STOCK'')\<rparr>"

definition renderProductPopup :: "host \<Rightarrow> component \<Rightarrow> unit outcome" where
  "renderProductPopup h this =
     (case currentProduct this of
        None \<Rightarrow> (Inr (), this)
      | Some p \<Rightarrow>
          if \<not> ref_popupContent this then (Inr (), this)
          else
            (case renderVariantOptions this of
               Inl e \<Rightarrow> (Inl e, this)
             | Inr groups \<Rightarrow>
                 (Inr (),
                  this\<lparr>popupContent := Some (popup_for h p (getSelectedVariant this) groups)\<rparr>)))"

text \<open>\<^verbatim>\<open>handleVariantSelection\<close> (lines 368--384), on the button's data attributes.\<close>

definition handleVariantSelection ::
    "host \<Rightarrow> string \<Rightarrow> string \<Rightarrow> component \<Rightarrow> unit outcome" where
  "handleVariantSelection h optionName optionValue this =
     renderProductPopup h
       (this\<lparr>selectedVariants :=
               write_property optionName optionValue (selectedVariants this)\<rparr>)"

text \<open>\<^verbatim>\<open>openPopup\<close>, \<^verbatim>\<open>closePopup\<close> and \<^verbatim>\<open>isPopupOpen\<close> (lines 600--622).\<close>

definition openPopup :: "component \<Rightarrow> component" where
  "openPopup this =
     (if ref_popupOverlay this then this\<lparr>popup_active := True, body_overflow := ''hidden''\<rparr>
      else this)"

definition closePopup :: "component \<Rightarrow> component" where
  "closePopup this =
     (if ref_popupOverlay this then this\<lparr>popup_active := False, body_overflow := []\<rparr>
      else this)"

definition isPopupOpen :: "component \<Rightarrow> bool" where
  "isPopupOpen this = (ref_popupOverlay this \<and> popup_active this)"

section \<open>Adding to the cart\<close>

text \<open>\<^verbatim>\<open>shouldAutoAddDarkWinterJacket\<close> (lines 487--500).\<close>

definition shouldAutoAddDarkWinterJacket :: "variant \<Rightarrow> bool" where
  "shouldAutoAddDarkWinterJacket v =
     (let allOptions = map the (filter truthy [option1 v, option2 v, option3 v]);
          hasBlack = some (\<lambda>opt. opt \<noteq> [] \<and> string_includes (toLowerCase opt) ''black'')
                       allOptions;
          hasMedium = some (\<lambda>opt. opt \<noteq> [] \<and>
                                 (string_includes (toLowerCase opt) ''medium''
                                  \<or> toLowerCase opt = ''m''))
                        allOptions
      in hasBlack \<and> hasMedium)"

text \<open>
  \<^verbatim>\<open>addToCart\<close> (lines 520--552), given the server's answer to the request it sends.  The
  calls \<^verbatim>\<open>updateCartCount\<close> and \<^verbatim>\<open>triggerCartUpdate\<close> start requests of their own and
  handle their failures themselves.
\<close>

definition addToCart :: "unit fetched \<Rightarrow> int \<Rightarrow> nat \<Rightarrow> component \<Rightarrow> unit outcome" where
  "addToCart response variantId quantity this0 =
     (let this = emit (CartAdd variantId quantity) this0;
          failed = emit (ConsoleError ''Add to cart error:'') this
      in case response of
           Rejected \<Rightarrow> (Inl NetworkError, failed)
         | NotOk status description \<Rightarrow>
             (Inl (Error (if truthy description then the description
                          else ''Failed to add to cart: '' @ decimal_digits status)),
              failed)
         | Unparsable \<Rightarrow> (Inl SyntaxError, failed)
         | Parsed result \<Rightarrow> (Inr (), emit TriggerCartUpdate (emit UpdateCartCount this)))"

text \<open>\<^verbatim>\<open>addDarkWinterJacketToCart\<close> (lines 505--515).\<close>

definition darkWinterJacketVariantId :: int where
  "darkWinterJacketVariantId = 52160865337711"

definition addDarkWinterJacketToCart :: "unit fetched \<Rightarrow> component \<Rightarrow> unit outcome" where
  "addDarkWinterJacketToCart response this =
     (case addToCart response darkWinterJacketVariantId 1 this of
        (Inr u, this1) \<Rightarrow>
          (Inr (), emit (SuccessMessage ''Dark Winter Jacket automatically added to cart!'') this1)
      | (Inl e, this1) \<Rightarrow>
          (Inr (), emit (ConsoleError ''Error adding Dark Winter Jacket to cart:'') this1))"

text \<open>
  \<^verbatim>\<open>handleAddToCart\<close> (lines 463--482), given the answers to the primary and to the bundle
  request.  \<open>add_failed\<close> is its \<^verbatim>\<open>catch\<close> block.
\<close>

definition add_failed :: "component \<Rightarrow> component" where
  "add_failed this =
     emit (ErrorMessage ''Failed to add product to cart'')
       (emit (ConsoleError ''Error adding to cart:'') this)"

definition handleAddToCart ::
    "unit fetched \<Rightarrow> unit fetched \<Rightarrow> component \<Rightarrow> unit outcome" where
  "handleAddToCart primary bundle this =
     (case getSelectedVariant this of
        None \<Rightarrow> (Inr (), this)
      | Some selectedVariant \<Rightarrow>
          if \<not> available selectedVariant then (Inr (), this)
          else
            (case addToCart primary (variant_id selectedVariant) 1 this of
               (Inl e, this1) \<Rightarrow> (Inr (), add_failed this1)
             | (Inr u, this1) \<Rightarrow>
                 (case (if shouldAutoAddDarkWinterJacket selectedVariant
                        then addDarkWinterJacketToCart bundle this1
                        else (Inr (), this1)) of
                    (Inl e, this2) \<Rightarrow> (Inr (), add_failed this2)
                  | (Inr u, this2) \<Rightarrow>
                      (Inr (),
                       emit (SuccessMessage ''Product added to cart!'') (closePopup this2)))))"

text \<open>
  The second listing of the file (lines 1213--1236) ends the success path with a call of
  \<^verbatim>\<open>showCartDrawer\<close>, which is not awaited: it is recorded as started.
\<close>

definition handleAddToCart_drawer ::
    "unit fetched \<Rightarrow> unit fetched \<Rightarrow> component \<Rightarrow> unit outcome" where
  "handleAddToCart_drawer primary bundle this =
     (case getSelectedVariant this of
        None \<Rightarrow> (Inr (), this)
      | Some selectedVariant \<Rightarrow>
          if \<not> available selectedVariant then (Inr (), this)
          else
            (case addToCart primary (variant_id selectedVariant) 1 this of
               (Inl e, this1) \<Rightarrow> (Inr (), add_failed this1)
             | (Inr u, this1) \<Rightarrow>
                 (case (if shouldAutoAddDarkWinterJacket selectedVariant
                        then addDarkWinterJacketToCart bundle this1
                        else (Inr (), this1)) of
                    (Inl e, this2) \<Rightarrow> (Inr (), add_failed this2)
                  | (Inr u, this2) \<Rightarrow>
                      (Inr (),
                       emit ShowCartDrawer
                         (emit (SuccessMessage ''Product added to cart!'')
                            (closePopup this2))))))"

section \<open>Loading a product\<close>

text \<open>\<^verbatim>\<open>loadProduct\<close> (lines 90--116), given the server's answer.\<close>

definition loadProduct ::
    "host \<Rightarrow> product fetched \<Rightarrow> string \<Rightarrow> component \<Rightarrow> unit outcome" where
  "loadProduct h response productIdentifier this0 =
     (let url = (if string_includes productIdentifier ''/''
                    \<or> string_includes productIdentifier ''-''
                 then ''/products/'' @ productIdentifier @ ''.js''
                 else ''/products/'' @ productIdentifier @ ''.js'');
          this = emit (Fetch url) this0;
          logged = emit (ConsoleError ''Error loading product:'')
      in case response of
           Rejected \<Rightarrow> (Inl NetworkError, logged this)
         | NotOk status description \<Rightarrow>
             (Inl (Error (''Failed to load product: '' @ decimal_digits status)), logged this)
         | Unparsable \<Rightarrow> (Inl SyntaxError, logged this)
         | Parsed p \<Rightarrow>
             (case initializeVariants (this\<lparr>currentProduct := Some p\<rparr>) of
                (Inl e, this1) \<Rightarrow> (Inl e, logged this1)
              | (Inr u, this1) \<Rightarrow>
                  (case renderProductPopup h this1 of
                     (Inl e, this2) \<Rightarrow> (Inl e, logged this2)
                   | (Inr u, this2) \<Rightarrow> (Inr (), this2))))"

text \<open>\<^verbatim>\<open>handleHotspotClick\<close> (lines 68--85), on the hotspot's data attributes.\<close>

record hotspot =
  productHandle :: "string option"
  productId :: "string option"

definition handleHotspotClick ::
    "host \<Rightarrow> product fetched \<Rightarrow> hotspot \<Rightarrow> component \<Rightarrow> unit outcome" where
  "handleHotspotClick h response spot this =
     (if \<not> truthy (productHandle spot) \<and> \<not> truthy (productId spot)
      then (Inr (), emit (ConsoleWarn ''No product handle or ID found for hotspot'') this)
      else
        (case loadProduct h response
                (if truthy (productHandle spot) then the (productHandle spot)
                 else the (productId spot)) this of
           (Inr u, this1) \<Rightarrow> (Inr (), openPopup this1)
         | (Inl e, this1) \<Rightarrow>
             (Inr (), openPopup (emit (ConsoleError ''Error loading product:'') this1))))"

section \<open>The cart drawer\<close>

text \<open>The drawer as \<^verbatim>\<open>createCartDrawer\<close> builds it (second listing, lines 1524--1694).\<close>

definition createCartDrawer :: drawer where
  "createCartDrawer =
     \<lparr>items_display = [], empty_display = ''none'', checkout_disabled = True,
      drawer_rows = [], subtotal_amount = ''$0.00''\<rparr>"

text \<open>\<^verbatim>\<open>updateCartDrawer\<close> (second listing, lines 1723--1787).\<close>

definition cart_row :: "host \<Rightarrow> cart_item \<Rightarrow> drawer_row" where
  "cart_row h item =
     \<lparr>row_image = item_image item,
      row_title = item_title item,
      row_variant = (if truthy (item_variant_title item) then the (item_variant_title item)
                     else []),
      row_price = formatPrice h (final_price item),
      row_quantity = item_quantity item\<rparr>"

definition updateCartDrawer :: "host \<Rightarrow> cart \<Rightarrow> drawer \<Rightarrow> drawer" where
  "updateCartDrawer h c d =
     (let d1 = (if item_count c = 0
                then d\<lparr>items_display := ''none'', empty_display := ''block'',
                       checkout_disabled := True\<rparr>
                else d\<lparr>items_display := ''block'', empty_display := ''none'',
                       checkout_disabled := False,
                       drawer_rows := map (cart_row h) (items c)\<rparr>)
      in d1\<lparr>subtotal_amount := formatPrice h (total_price c)\<rparr>)"

section \<open>Specification vocabulary\<close>

text \<open>
  The option schema a product exposes: the modern \<^verbatim>\<open>options_with_values\<close> when it is
  non-empty, else the legacy \<^verbatim>\<open>options\<close>.
\<close>

definition option_schema :: "product \<Rightarrow> product_option list" where
  "option_schema p =
     (if present (options_with_values p) then elements (options_with_values p)
      else elements (options p))"

text \<open>
  A variant matches a selection when, in every option slot, the selection has no value for
  the option's name (none at all, or the empty string) or the variant's value in the slot
  is the selected one.
\<close>

definition variant_matches :: "product_option list \<Rightarrow> selection \<Rightarrow> variant \<Rightarrow> bool" where
  "variant_matches opts sel v \<longleftrightarrow>
     (\<forall>k<length opts.
        \<not> truthy (sel (name (opts ! k))) \<or> variant_option v (k + 1) = sel (name (opts ! k)))"

text \<open>The defined option values of a variant: those of its three slots that are non-empty.\<close>

definition defined_options :: "variant \<Rightarrow> string list" where
  "defined_options v = map the (filter truthy [option1 v, option2 v, option3 v])"

section \<open>Example data\<close>

text \<open>A host that formats US dollars and is given plain text for descriptions.\<close>

definition browser :: host where
  "browser = \<lparr>currency_format = en_US_currency, stripHtml = (\<lambda>html. html)\<rparr>"

text \<open>A tee in two colours and two sizes, under the modern schema.\<close>

definition color_option :: product_option where
  "color_option =
     \<lparr>name = ''Color'',
      values_of = [ValueObject ''Red'' (Some True), ValueObject ''Blue'' (Some True)]\<rparr>"

definition size_option :: product_option where
  "size_option = \<lparr>name = ''Size'', values_of = [ValueString ''S'', ValueString ''M'']\<rparr>"

definition red_small :: variant where
  "red_small =
     \<lparr>variant_id = 101, variant_price = JNumber (Num False 2500), available = False,
      option1 = Some ''Red'', option2 = Some ''S'', option3 = None,
      variant_featured_image = None, featured_image_id = None\<rparr>"

definition red_medium :: variant where
  "red_medium =
     \<lparr>variant_id = 102, variant_price = JNumber (Num False 2500), available = True,
      option1 = Some ''Red'', option2 = Some ''M'', option3 = None,
      variant_featured_image = None, featured_image_id = None\<rparr>"

definition blue_medium :: variant where
  "blue_medium =
     \<lparr>variant_id = 103, variant_price = JNumber (Num False 3000), available = True,
      option1 = Some ''Blue'', option2 = Some ''M'', option3 = None,
      variant_featured_image = Some ''blue.jpg'', featured_image_id = None\<rparr>"

definition tee :: product where
  "tee =
     \<lparr>title = ''Tee'', product_price = JNumber (Num False 2500), body_html = None,
      variants = Some [red_small, red_medium, blue_medium],
      options_with_values = Some [color_option, size_option], options = None,
      featured_image = Some ''tee.jpg'', images = None\<rparr>"

text \<open>The component with the tee loaded, and after the shopper has picked blue.\<close>

definition mounted :: component where
  "mounted =
     \<lparr>currentProduct = None, selectedVariants = Map.empty, ref_popupOverlay = True,
      ref_popupContent = True, popupContent = None, popup_active = False,
      body_overflow = [], trace = []\<rparr>"

definition tee_page :: component where
  "tee_page = mounted\<lparr>currentProduct := Some tee, selectedVariants := [''Color'' \<mapsto> ''Blue'']\<rparr>"

text \<open>Three variants for the bundle rule.\<close>

definition black_m :: variant where
  "black_m =
     \<lparr>variant_id = 201, variant_price = JNumber (Num False 8900), available = True,
      option1 = Some ''M'', option2 = Some ''BLACK'', option3 = None,
      variant_featured_image = None, featured_image_id = None\<rparr>"

definition navy_medium :: variant where
  "navy_medium =
     \<lparr>variant_id = 202, variant_price = JNumber (Num False 8900), available = True,
      option1 = Some ''Navy'', option2 = Some ''Medium'', option3 = None,
      variant_featured_image = None, featured_image_id = None\<rparr>"

definition black_mediumweight :: variant where
  "black_mediumweight =
     \<lparr>variant_id = 203, variant_price = JNumber (Num False 8900), available = True,
      option1 = Some ''Black'', option2 = Some ''Mediumweight'', option3 = None,
      variant_featured_image = None, featured_image_id = None\<rparr>"

text \<open>
  A scarf whose only variant has no value in the second option slot, and a cap under the
  legacy schema.
\<close>

definition scarf_red :: variant where
  "scarf_red =
     \<lparr>variant_id = 301, variant_price = JNumber (Num False 1500), available = True,
      option1 = Some ''Red'', option2 = None, option3 = None,
      variant_featured_image = None, featured_image_id = None\<rparr>"

definition scarf :: product where
  "scarf =
     \<lparr>title = ''Scarf'', product_price = JNumber (Num False 1500), body_html = None,
      variants = Some [scarf_red],
      options_with_values = Some [color_option, size_option], options = None,
      featured_image = None, images = None\<rparr>"

definition scarf_page :: component where
  "scarf_page = mounted\<lparr>currentProduct := Some scarf\<rparr>"

definition cap_small :: variant where
  "cap_small =
     \<lparr>variant_id = 401, variant_price = JNumber (Num False 1200), available = True,
      option1 = Some ''S'', option2 = None, option3 = None,
      variant_featured_image = None, featured_image_id = None\<rparr>"

definition cap :: product where
  "cap =
     \<lparr>title = ''Cap'', product_price = JNumber (Num False 1200), body_html = None,
      variants = Some [cap_small],
      options_with_values = None, options = Some [size_option],
      featured_image = None, images = None\<rparr>"

definition cap_page :: component where
  "cap_page = mounted\<lparr>currentProduct := Some cap, selectedVariants := [''Size'' \<mapsto> ''XL'']\<rparr>"

text \<open>An empty cart.\<close>

definition empty_cart :: cart where
  "empty_cart = \<lparr>item_count = 0, items = [], total_price = JNumber (Num False 0)\<rparr>"

text \<open>
  A mug without options: two variants, the first one the dearer, the product's own price
  the lower of the two, and an image for the product and one for the first variant.
\<close>

definition mug_large :: variant where
  "mug_large =
     \<lparr>variant_id = 501, variant_price = JNumber (Num False 3000), available = True,
      option1 = None, option2 = None, option3 = None,
      variant_featured_image = Some ''large.jpg'', featured_image_id = None\<rparr>"

definition mug_small :: variant where
  "mug_small =
     \<lparr>variant_id = 502, variant_price = JNumber (Num False 2500), available = True,
      option1 = None, option2 = None, option3 = None,
      variant_featured_image = None, featured_image_id = None\<rparr>"

definition mug :: product where
  "mug =
     \<lparr>title = ''Mug'', product_price = JNumber (Num False 2500), body_html = None,
      variants = Some [mug_large, mug_small],
      options_with_values = None, options = None,
      featured_image = Some ''mug.jpg'', images = None\<rparr>"

definition mug_page :: component where
  "mug_page = mounted\<lparr>currentProduct := Some mug\<rparr>"

text \<open>A hoodie whose only variant is \<open>black_m\<close>, with its popup open.\<close>

definition hoodie :: product where
  "hoodie =
     \<lparr>title = ''Hoodie'', product_price = JNumber (Num False 8900), body_html = None,
      variants = Some [black_m],
      options_with_values = Some [size_option, color_option], options = None,
      featured_image = None, images = None\<rparr>"

definition hoodie_page :: component where
  "hoodie_page = mounted\<lparr>currentProduct := Some hoodie, popup_active := True,
                          body_overflow := ''hidden''\<rparr>"

text \<open>A hotspot for the tee.\<close>

definition tee_hotspot :: hotspot where
  "tee_hotspot = \<lparr>productHandle = Some ''tee'', productId = None\<rparr>"





definition proto_option :: product_option where
  "proto_option = \<lparr>name = ''__proto__'', values_of = [ValueString ''Red'']\<rparr>"

definition gadget_red :: variant where
  "gadget_red =
     \<lparr>variant_id = 701, variant_price = JNumber (Num False 1900), available = True,
      option1 = Some ''Red'', option2 = None, option3 = None,
      variant_featured_image = None, featured_image_id = None\<rparr>"

definition gadget :: product where
  "gadget =
     \<lparr>title = ''Gadget'', product_price = JNumber (Num False 1900), body_html = None,
      variants = Some [gadget_red],
      options_with_values = Some [proto_option], options = None,
      featured_image = None, images = None\<rparr>"

definition gadget_page :: component where
  "gadget_page = mounted\<lparr>currentProduct := Some gadget\<rparr>"

section \<open>Array method lemmas\<close>

lemma every_from_nth:
  "every_from f i xs \<longleftrightarrow> (\<forall>k<length xs. f (xs ! k) (i + k))"
proof (induction xs arbitrary: i)
  case Nil
  show ?case by simp
next
  case (Cons x xs)
  have "(\<forall>k<Suc (length xs). f ((x # xs) ! k) (i + k))
        \<longleftrightarrow> f x i \<and> (\<forall>k<length xs. f (xs ! k) (Suc i + k))"
    by (auto simp: less_Suc_eq_0_disj)
  with Cons show ?case by simp
qed

lemma every_nth: "every f xs \<longleftrightarrow> (\<forall>k<length xs. f (xs ! k) k)"
  by (simp add: every_def every_from_nth)

lemma some_set: "some f xs \<longleftrightarrow> (\<exists>x\<in>set xs. f x)"
  by (induction xs) auto

lemma findIndex_from_Some:
  "findIndex_from f i xs = Some n \<longleftrightarrow>
     (\<exists>k<length xs. n = i + k \<and> f (xs ! k) \<and> (\<forall>j<k. \<not> f (xs ! j)))"
proof (induction xs arbitrary: i)
  case Nil
  show ?case by simp
next
  case (Cons x xs)
  show ?case
  proof (cases "f x")
    case True
    then show ?thesis by (auto simp: less_Suc_eq_0_disj)
  next
    case False
    have "(\<exists>k<length (x # xs). n = i + k \<and> f ((x # xs) ! k) \<and> (\<forall>j<k. \<not> f ((x # xs) ! j)))
          \<longleftrightarrow> (\<exists>k<length xs. n = Suc i + k \<and> f (xs ! k) \<and> (\<forall>j<k. \<not> f (xs ! j)))"
      (is "?L \<longleftrightarrow> ?R")
    proof
      assume ?L
      then obtain k where k: "k < length (x # xs)" "n = i + k" "f ((x # xs) ! k)"
        "\<forall>j<k. \<not> f ((x # xs) ! j)" by blast
      with False obtain k' where k': "k = Suc k'" by (cases k) auto
      have "\<forall>j<k'. \<not> f (xs ! j)"
      proof (intro allI impI)
        fix j assume "j < k'"
        then have "Suc j < k" using k' by simp
        with k(4) have "\<not> f ((x # xs) ! Suc j)" by blast
        then show "\<not> f (xs ! j)" by simp
      qed
      with k k' show ?R by auto
    next
      assume ?R
      then obtain k where k: "k < length xs" "n = Suc i + k" "f (xs ! k)"
        "\<forall>j<k. \<not> f (xs ! j)" by blast
      have "\<forall>j<Suc k. \<not> f ((x # xs) ! j)"
        using False k(4) by (auto simp: less_Suc_eq_0_disj)
      with k show ?L by (intro exI [of _ "Suc k"]) auto
    qed
    with False Cons show ?thesis by simp
  qed
qed

lemma findIndex_Some:
  "findIndex f xs = Some k \<longleftrightarrow> k < length xs \<and> f (xs ! k) \<and> (\<forall>j<k. \<not> f (xs ! j))"
  by (auto simp: findIndex_def findIndex_from_Some)

lemma variant_option_Suc [simp]:
  "variant_option v (Suc 0) = option1 v"
  "variant_option v (Suc (Suc 0)) = option2 v"
  "variant_option v (Suc (Suc (Suc 0))) = option3 v"
  "variant_option v (Suc (Suc (Suc (Suc n)))) = None"
  by (simp_all add: variant_option_def)

section \<open>Variant resolution\<close>

lemma read_property_plain:
  assumes "key \<notin> set prototype_properties"
  shows "truthy_property (read_property sel key) = truthy (sel key)"
    and "strict_equal a (read_property sel key) = (a = sel key)"
  using assms
  by (cases "sel key";
      simp add: read_property_def truthy_property_def truthy_def strict_equal_def)+

lemma slot_agrees_plain:
  assumes "name opt \<notin> set prototype_properties"
  shows "slot_agrees sel v opt index \<longleftrightarrow>
           \<not> truthy (sel (name opt)) \<or> variant_option v (index + 1) = sel (name opt)"
  using assms by (simp add: slot_agrees_def Let_def read_property_plain)

lemma every_slot_agrees:
  assumes "\<forall>opt\<in>set opts. name opt \<notin> set prototype_properties"
  shows "every (slot_agrees sel v) opts \<longleftrightarrow> variant_matches opts sel v"
proof -
  have "slot_agrees sel v (opts ! k) k \<longleftrightarrow>
          \<not> truthy (sel (name (opts ! k)))
          \<or> variant_option v (k + 1) = sel (name (opts ! k))"
    if "k < length opts" for k
    using that assms by (intro slot_agrees_plain) simp
  then show ?thesis
    by (simp add: every_nth variant_matches_def)
qed

lemma resolver_callback:
  assumes "option_schema p \<noteq> []"
    and "\<forall>opt\<in>set (option_schema p). name opt \<notin> set prototype_properties"
  shows "(if present (options_with_values p)
          then every (slot_agrees sel v) (elements (options_with_values p))
          else if present (options p) then every (slot_agrees sel v) (elements (options p))
          else False) = variant_matches (option_schema p) sel v"
proof (cases "present (options_with_values p)")
  case True
  with assms(2) show ?thesis
    by (simp add: option_schema_def every_slot_agrees)
next
  case False
  with assms(1) have "present (options p)"
    by (auto simp: option_schema_def present_def elements_def split: option.splits)
  with False assms(2) show ?thesis
    by (simp add: option_schema_def every_slot_agrees)
qed

lemma getSelectedVariant_find:
  assumes "currentProduct this = Some p" and "option_schema p \<noteq> []"
    and "\<forall>opt\<in>set (option_schema p). name opt \<notin> set prototype_properties"
  shows "getSelectedVariant this =
           find (variant_matches (option_schema p) (selectedVariants this))
             (elements (variants p))"
  using assms
  by (cases "variants p") (simp_all add: getSelectedVariant_def elements_def resolver_callback)

text \<open>
  Away from the names that a plain object inherits, \<^verbatim>\<open>getSelectedVariant\<close> is a first
  match: it returns the first variant, in the product's variant order, that matches the
  selection, and none exactly when no variant matches.  (As in the source's
  \<^verbatim>\<open>!selectedValue\<close>, an empty string selected counts as no value.)
\<close>

lemma getSelectedVariant_first_match:
  assumes "currentProduct this = Some p" and "option_schema p \<noteq> []"
    and "\<forall>opt\<in>set (option_schema p). name opt \<notin> set prototype_properties"
  shows "(getSelectedVariant this = None \<longleftrightarrow>
            (\<forall>v\<in>set (elements (variants p)).
               \<not> variant_matches (option_schema p) (selectedVariants this) v))
       \<and> (\<forall>v. getSelectedVariant this = Some v \<longleftrightarrow>
            (\<exists>i<length (elements (variants p)).
               elements (variants p) ! i = v
             \<and> variant_matches (option_schema p) (selectedVariants this) v
             \<and> (\<forall>j<i. \<not> variant_matches (option_schema p) (selectedVariants this)
                          (elements (variants p) ! j))))"
proof -
  let ?P = "variant_matches (option_schema p) (selectedVariants this)"
  let ?vs = "elements (variants p)"
  have eq: "getSelectedVariant this = find ?P ?vs"
    using assms by (rule getSelectedVariant_find)
  have none: "find ?P ?vs = None \<longleftrightarrow> (\<forall>v\<in>set ?vs. \<not> ?P v)"
    by (auto simp: find_None_iff)
  have some: "find ?P ?vs = Some v \<longleftrightarrow>
       (\<exists>i<length ?vs. ?vs ! i = v \<and> ?P v \<and> (\<forall>j<i. \<not> ?P (?vs ! j)))" for v
    by (auto simp: find_Some_iff)
  show ?thesis
    unfolding eq using none some by blast
qed

lemma tee_facts:
  "currentProduct tee_page = Some tee"
  "option_schema tee = [color_option, size_option]"
  "elements (variants tee) = [red_small, red_medium, blue_medium]"
  "selectedVariants tee_page ''Color'' = Some ''Blue''"
  "selectedVariants tee_page ''Size'' = None"
  by (simp_all add: tee_page_def mounted_def tee_def option_schema_def present_def elements_def)

lemma tee_slots:
  "option1 red_small = Some ''Red''" "option2 red_small = Some ''S''"
  "option1 red_medium = Some ''Red''" "option2 red_medium = Some ''M''"
  "option1 blue_medium = Some ''Blue''" "option2 blue_medium = Some ''M''"
  "name color_option = ''Color''" "name size_option = ''Size''"
  by (simp_all add: red_small_def red_medium_def blue_medium_def
        color_option_def size_option_def)

lemma tee_names: "\<forall>opt\<in>set (option_schema tee). name opt \<notin> set prototype_properties"
  by (simp add: tee_facts tee_slots prototype_properties_def)

lemma tee_matches:
  "\<not> variant_matches [color_option, size_option] (selectedVariants tee_page) red_small"
  "\<not> variant_matches [color_option, size_option] (selectedVariants tee_page) red_medium"
  "variant_matches [color_option, size_option] (selectedVariants tee_page) blue_medium"
  by (simp_all add: variant_matches_def All_less_Suc2 tee_facts tee_slots truthy_def)

lemma getSelectedVariant_tee:
  "currentProduct tee_page = Some tee \<and> option_schema tee \<noteq> []
   \<and> getSelectedVariant tee_page = Some blue_medium
   \<and> getSelectedVariant (tee_page\<lparr>selectedVariants := [''Color'' \<mapsto> ''Green'']\<rparr>) = None"
proof -
  have loaded: "currentProduct tee_page = Some tee"
    by (rule tee_facts)
  have schema: "option_schema tee \<noteq> []"
    by (simp add: tee_facts)
  have third: "\<exists>i<length (elements (variants tee)).
      elements (variants tee) ! i = blue_medium
    \<and> variant_matches (option_schema tee) (selectedVariants tee_page) blue_medium
    \<and> (\<forall>j<i. \<not> variant_matches (option_schema tee) (selectedVariants tee_page)
                 (elements (variants tee) ! j))"
    by (rule exI [of _ "Suc (Suc 0)"]) (simp add: tee_facts tee_matches All_less_Suc2)
  have blue: "getSelectedVariant tee_page = Some blue_medium"
    using getSelectedVariant_first_match [OF loaded schema tee_names] third by blast
  let ?green = "tee_page\<lparr>selectedVariants := [''Color'' \<mapsto> ''Green'']\<rparr>"
  have loaded': "currentProduct ?green = Some tee"
    by (simp add: tee_facts)
  have "\<forall>v\<in>set (elements (variants tee)).
          \<not> variant_matches (option_schema tee) (selectedVariants ?green) v"
    by (simp add: tee_facts variant_matches_def All_less_Suc2 tee_slots truthy_def)
  then have green: "getSelectedVariant ?green = None"
    using getSelectedVariant_first_match [OF loaded' schema tee_names] by blast
  from loaded schema blue green show ?thesis by blast
qed





section \<open>Availability of an option value\<close>

lemma carries_value_iff:
  assumes "\<forall>opt\<in>set opts. name opt \<notin> set prototype_properties"
  shows "carries_value opts sel optionName optionValue v \<longleftrightarrow>
     (\<exists>k<length opts.
        name (opts ! k) = optionName \<and> (\<forall>j<k. name (opts ! j) \<noteq> optionName)
      \<and> variant_option v (k + 1) = Some optionValue
      \<and> (\<forall>i<length opts. name (opts ! i) \<noteq> optionName \<longrightarrow>
            \<not> truthy (sel (name (opts ! i)))
            \<or> variant_option v (i + 1) = sel (name (opts ! i))))"
  (is "?L \<longleftrightarrow> (\<exists>k<length opts. ?A k \<and> ?B k \<and> ?C k \<and> ?Q)")
proof (cases "findIndex (\<lambda>opt. name opt = optionName) opts")
  case None
  have "\<not> (\<exists>k<length opts. ?A k \<and> ?B k)"
  proof
    assume "\<exists>k<length opts. ?A k \<and> ?B k"
    then obtain k where "k < length opts \<and> ?A k \<and> ?B k" by blast
    then have "findIndex (\<lambda>opt. name opt = optionName) opts = Some k"
      by (simp add: findIndex_Some)
    with None show False by simp
  qed
  moreover from None have "\<not> ?L" by (simp add: carries_value_def)
  ultimately show ?thesis by blast
next
  case (Some n)
  then have n: "n < length opts" "?A n" "?B n"
    by (simp_all add: findIndex_Some)
  have uniq: "k = n" if "k < length opts" "?A k" "?B k" for k
  proof (rule ccontr)
    assume "k \<noteq> n"
    then consider "k < n" | "n < k" by linarith
    then show False
    proof cases
      case 1
      with n(3) that(2) show False by blast
    next
      case 2
      with that(3) n(2) show False by blast
    qed
  qed
  have "other_slot_agrees sel optionName v (opts ! i) i \<longleftrightarrow>
          (name (opts ! i) \<noteq> optionName \<longrightarrow>
             \<not> truthy (sel (name (opts ! i)))
             \<or> variant_option v (i + 1) = sel (name (opts ! i)))"
    if "i < length opts" for i
  proof -
    from that assms have "name (opts ! i) \<notin> set prototype_properties" by simp
    then show ?thesis
      by (simp add: other_slot_agrees_def Let_def read_property_plain)
  qed
  then have every: "every (other_slot_agrees sel optionName v) opts \<longleftrightarrow> ?Q"
    by (simp add: every_nth)
  have lhs: "?L \<longleftrightarrow> ?C n \<and> ?Q"
    using Some every by (simp add: carries_value_def)
  have rhs: "(\<exists>k<length opts. ?A k \<and> ?B k \<and> ?C k \<and> ?Q) \<longleftrightarrow> ?C n \<and> ?Q"
  proof
    assume "\<exists>k<length opts. ?A k \<and> ?B k \<and> ?C k \<and> ?Q"
    then obtain k where k: "k < length opts" "?A k" "?B k" "?C k" "?Q" by blast
    from k(1-3) have "k = n" by (rule uniq)
    with k show "?C n \<and> ?Q" by blast
  next
    assume "?C n \<and> ?Q"
    with n show "\<exists>k<length opts. ?A k \<and> ?B k \<and> ?C k \<and> ?Q" by blast
  qed
  from lhs rhs show ?thesis by blast
qed

text \<open>
  Away from the names that a plain object inherits, \<^verbatim>\<open>isVariantAvailable(O, V)\<close> is
  true exactly when some variant carries \<open>V\<close> in the slot of \<open>O\<close> (the first option of that
  name) and, for every other option with a currently selected value, has the selected
  value in the corresponding slot; the option \<open>O\<close> itself is left out of the match.
\<close>

lemma isVariantAvailable_iff:
  assumes "currentProduct this = Some p"
    and "\<forall>opt\<in>set (option_schema p). name opt \<notin> set prototype_properties"
  shows "isVariantAvailable this optionName optionValue \<longleftrightarrow>
     (\<exists>v\<in>set (elements (variants p)). \<exists>k<length (option_schema p).
        name (option_schema p ! k) = optionName
      \<and> (\<forall>j<k. name (option_schema p ! j) \<noteq> optionName)
      \<and> variant_option v (k + 1) = Some optionValue
      \<and> (\<forall>i<length (option_schema p). name (option_schema p ! i) \<noteq> optionName \<longrightarrow>
            \<not> truthy (selectedVariants this (name (option_schema p ! i)))
            \<or> variant_option v (i + 1) = selectedVariants this (name (option_schema p ! i))))"
proof (cases "variants p")
  case None
  with assms show ?thesis by (simp add: isVariantAvailable_def elements_def)
next
  case (Some vs)
  show ?thesis
  proof (cases "option_schema p = []")
    case True
    then have "\<not> present (options_with_values p)" "\<not> present (options p)"
      by (auto simp: option_schema_def present_def elements_def split: option.splits if_splits)
    with assms Some True show ?thesis by (simp add: isVariantAvailable_def)
  next
    case False
    have "isVariantAvailable this optionName optionValue \<longleftrightarrow>
            some (carries_value (option_schema p) (selectedVariants this) optionName optionValue) vs"
    proof (cases "present (options_with_values p)")
      case True
      with assms Some show ?thesis by (simp add: isVariantAvailable_def option_schema_def)
    next
      case no: False
      with False have "present (options p)"
        by (auto simp: option_schema_def present_def elements_def split: option.splits)
      with no assms Some show ?thesis by (simp add: isVariantAvailable_def option_schema_def)
    qed
    also have "\<dots> \<longleftrightarrow> (\<exists>v\<in>set vs.
        carries_value (option_schema p) (selectedVariants this) optionName optionValue v)"
      by (rule some_set)
    finally show ?thesis
      using Some unfolding carries_value_iff [OF assms(2)] by (simp add: elements_def)
  qed
qed

lemma isVariantAvailable_tee:
  "currentProduct tee_page = Some tee
   \<and> isVariantAvailable tee_page ''Size'' ''M''
   \<and> \<not> isVariantAvailable tee_page ''Size'' ''S''
   \<and> isVariantAvailable tee_page ''Color'' ''Red''"
proof -
  have loaded: "currentProduct tee_page = Some tee"
    by (rule tee_facts)
  note iff = isVariantAvailable_iff [OF loaded tee_names, unfolded tee_facts]
  have m: "isVariantAvailable tee_page ''Size'' ''M''"
    unfolding iff
    by (intro bexI [of _ blue_medium] exI [of _ "Suc 0"])
       (simp_all add: tee_slots tee_facts All_less_Suc2 truthy_def)
  have s: "\<not> isVariantAvailable tee_page ''Size'' ''S''"
    unfolding iff
    by (auto simp: tee_slots tee_facts All_less_Suc2 Ex_less_Suc2 truthy_def)
  have red: "isVariantAvailable tee_page ''Color'' ''Red''"
    unfolding iff
    by (intro bexI [of _ red_small] exI [of _ 0])
       (simp_all add: tee_slots tee_facts All_less_Suc2 truthy_def)
  from loaded m s red show ?thesis by blast
qed



section \<open>The bundle trigger\<close>

lemma take_prefix: "take (length t) s = t \<longleftrightarrow> (\<exists>post. s = t @ post)"
proof
  assume "take (length t) s = t"
  then have "s = t @ drop (length t) s"
    by (metis append_take_drop_id)
  then show "\<exists>post. s = t @ post" ..
next
  assume "\<exists>post. s = t @ post"
  then show "take (length t) s = t" by auto
qed

lemma string_includes_iff: "string_includes s t \<longleftrightarrow> (\<exists>pre post. s = pre @ t @ post)"
proof (induction s)
  case Nil
  show ?case by auto
next
  case (Cons c cs)
  have "(\<exists>pre post. c # cs = pre @ t @ post)
        \<longleftrightarrow> (\<exists>post. c # cs = t @ post) \<or> (\<exists>pre post. cs = pre @ t @ post)"
  proof
    assume "\<exists>pre post. c # cs = pre @ t @ post"
    then obtain pre post where eq: "c # cs = pre @ t @ post" by blast
    show "(\<exists>post. c # cs = t @ post) \<or> (\<exists>pre post. cs = pre @ t @ post)"
    proof (cases pre)
      case Nil
      with eq show ?thesis by auto
    next
      case (Cons d pre')
      with eq have "cs = pre' @ t @ post" by simp
      then show ?thesis by blast
    qed
  next
    assume "(\<exists>post. c # cs = t @ post) \<or> (\<exists>pre post. cs = pre @ t @ post)"
    then show "\<exists>pre post. c # cs = pre @ t @ post"
    proof
      assume "\<exists>post. c # cs = t @ post"
      then obtain post where "c # cs = [] @ t @ post" by auto
      then show ?thesis by blast
    next
      assume "\<exists>pre post. cs = pre @ t @ post"
      then obtain pre post where "cs = pre @ t @ post" by blast
      then have "c # cs = (c # pre) @ t @ post" by simp
      then show ?thesis by blast
    qed
  qed
  with Cons show ?case by (simp only: string_includes.simps take_prefix)
qed

lemma defined_options_nonempty: "a \<in> set (defined_options v) \<Longrightarrow> a \<noteq> []"
  by (auto simp: defined_options_def truthy_def split: option.splits if_splits)

lemma shouldAuto_unfold:
  "shouldAutoAddDarkWinterJacket v \<longleftrightarrow>
     (\<exists>a\<in>set (defined_options v). string_includes (toLowerCase a) ''black'')
   \<and> (\<exists>b\<in>set (defined_options v).
         string_includes (toLowerCase b) ''medium'' \<or> toLowerCase b = ''m'')"
  unfolding shouldAutoAddDarkWinterJacket_def Let_def some_set defined_options_def [symmetric]
  using defined_options_nonempty by blast

text \<open>
  C3, amended.  \<^verbatim>\<open>shouldAutoAddDarkWinterJacket\<close> returns true exactly when some defined
  option value of the variant contains \<^verbatim>\<open>black\<close> as a substring, case-insensitively, and
  some defined option value contains \<^verbatim>\<open>medium\<close> as a substring or equals \<^verbatim>\<open>m\<close>,
  case-insensitively.  In particular it is true whenever one defined value is \<^verbatim>\<open>black\<close>
  and one is \<^verbatim>\<open>medium\<close> or \<^verbatim>\<open>m\<close> in any letter case, whatever their slots.
\<close>

theorem shouldAutoAddDarkWinterJacket_iff:
  "(shouldAutoAddDarkWinterJacket v \<longleftrightarrow>
      (\<exists>a\<in>set (defined_options v). \<exists>pre post. toLowerCase a = pre @ ''black'' @ post)
    \<and> (\<exists>b\<in>set (defined_options v).
          (\<exists>pre post. toLowerCase b = pre @ ''medium'' @ post) \<or> toLowerCase b = ''m''))
   \<and> (\<forall>a b. a \<in> set (defined_options v) \<and> b \<in> set (defined_options v)
          \<and> toLowerCase a = ''black'' \<and> (toLowerCase b = ''medium'' \<or> toLowerCase b = ''m'')
          \<longrightarrow> shouldAutoAddDarkWinterJacket v)"
proof -
  have iff: "shouldAutoAddDarkWinterJacket v \<longleftrightarrow>
      (\<exists>a\<in>set (defined_options v). \<exists>pre post. toLowerCase a = pre @ ''black'' @ post)
    \<and> (\<exists>b\<in>set (defined_options v).
          (\<exists>pre post. toLowerCase b = pre @ ''medium'' @ post) \<or> toLowerCase b = ''m'')"
    by (simp only: shouldAuto_unfold string_includes_iff)
  have "shouldAutoAddDarkWinterJacket v"
    if a: "a \<in> set (defined_options v)" and b: "b \<in> set (defined_options v)"
      and la: "toLowerCase a = ''black''"
      and lb: "toLowerCase b = ''medium'' \<or> toLowerCase b = ''m''" for a b
  proof -
    have "toLowerCase a = [] @ ''black'' @ []" using la by simp
    then have 1: "\<exists>a\<in>set (defined_options v). \<exists>pre post. toLowerCase a = pre @ ''black'' @ post"
      using a by blast
    have "toLowerCase b = [] @ ''medium'' @ [] \<or> toLowerCase b = ''m''" using lb by simp
    then have 2: "\<exists>b\<in>set (defined_options v).
          (\<exists>pre post. toLowerCase b = pre @ ''medium'' @ post) \<or> toLowerCase b = ''m''"
      using b by blast
    from 1 2 show ?thesis unfolding iff by blast
  qed
  with iff show ?thesis by blast
qed

lemma lower_examples:
  "toLowerCase ''BLACK'' = ''black''" "toLowerCase ''M'' = ''m''"
  "toLowerCase ''Medium'' = ''medium''" "toLowerCase ''Navy'' = ''navy''"
  "toLowerCase ''Black'' = ''black''" "toLowerCase ''Mediumweight'' = ''mediumweight''"
  by (simp_all add: toLowerCase_def lower_char_def)

lemma defined_examples:
  "defined_options black_m = [''M'', ''BLACK'']"
  "defined_options navy_medium = [''Navy'', ''Medium'']"
  "defined_options black_mediumweight = [''Black'', ''Mediumweight'']"
  by (simp_all add: defined_options_def truthy_def black_m_def navy_medium_def
        black_mediumweight_def)

text \<open>The rule fires for \<^verbatim>\<open>M\<close>/\<^verbatim>\<open>BLACK\<close> and not for \<^verbatim>\<open>Navy\<close>/\<^verbatim>\<open>Medium\<close>.\<close>

theorem shouldAutoAddDarkWinterJacket_iff_witness:
  "shouldAutoAddDarkWinterJacket black_m \<and> \<not> shouldAutoAddDarkWinterJacket navy_medium"
proof -
  have "''BLACK'' \<in> set (defined_options black_m) \<and> ''M'' \<in> set (defined_options black_m)
        \<and> toLowerCase ''BLACK'' = ''black''
        \<and> (toLowerCase ''M'' = ''medium'' \<or> toLowerCase ''M'' = ''m'')"
    by (simp add: defined_examples lower_examples)
  with shouldAutoAddDarkWinterJacket_iff [of black_m]
  have yes: "shouldAutoAddDarkWinterJacket black_m" by blast
  have "\<not> (\<exists>a\<in>set (defined_options navy_medium).
              \<exists>pre post. toLowerCase a = pre @ ''black'' @ post)"
    unfolding string_includes_iff [symmetric]
    by (simp add: defined_examples lower_examples)
  with shouldAutoAddDarkWinterJacket_iff [of navy_medium]
  have no: "\<not> shouldAutoAddDarkWinterJacket navy_medium" by blast
  from yes no show ?thesis ..
qed

text \<open>
  The size need not equal \<^verbatim>\<open>medium\<close> or \<^verbatim>\<open>m\<close>: the rule fires for
  \<^verbatim>\<open>Black\<close>/\<^verbatim>\<open>Mediumweight\<close>, where no option value is \<^verbatim>\<open>medium\<close> or \<^verbatim>\<open>m\<close> in any case.
\<close>

theorem bundle_trigger_counterexample:
  "shouldAutoAddDarkWinterJacket black_mediumweight
   \<and> defined_options black_mediumweight = [''Black'', ''Mediumweight'']
   \<and> toLowerCase ''Black'' \<noteq> ''medium'' \<and> toLowerCase ''Black'' \<noteq> ''m''
   \<and> toLowerCase ''Mediumweight'' \<noteq> ''medium'' \<and> toLowerCase ''Mediumweight'' \<noteq> ''m''"
  by (simp add: shouldAuto_unfold defined_examples lower_examples)

section \<open>Initial selection\<close>

lemma assign_if_keeps: "truthy (sel n) \<Longrightarrow> truthy (assign_if ov key sel n)"
  by (auto simp: assign_if_def write_property_def truthy_def split: option.splits)

lemma assign_if_sets:
  "truthy ov \<Longrightarrow> key \<noteq> ''__proto__'' \<Longrightarrow> truthy (assign_if ov key sel key)"
  by (auto simp: assign_if_def write_property_def truthy_def split: option.splits)

lemma forEach_from_keeps:
  "truthy (s n) \<Longrightarrow>
   truthy (forEach_from (\<lambda>opt index. assign_if (g index) (name opt)) i xs s n)"
  by (induction xs arbitrary: i s) (simp_all add: assign_if_keeps)

lemma forEach_from_covers:
  "k < length xs \<Longrightarrow> truthy (g (i + k)) \<Longrightarrow> name (xs ! k) \<noteq> ''__proto__'' \<Longrightarrow>
   truthy (forEach_from (\<lambda>opt index. assign_if (g index) (name opt)) i xs s (name (xs ! k)))"
proof (induction xs arbitrary: i s k)
  case Nil
  then show ?case by simp
next
  case (Cons x xs)
  show ?case
  proof (cases k)
    case 0
    with Cons.prems have "truthy (assign_if (g i) (name x) s (name x))"
      by (simp add: assign_if_sets)
    then have "truthy (forEach_from (\<lambda>opt index. assign_if (g index) (name opt)) (Suc i) xs
                 (assign_if (g i) (name x) s) (name x))"
      by (rule forEach_from_keeps)
    with 0 show ?thesis by simp
  next
    case (Suc k')
    with Cons.prems have "k' < length xs" "truthy (g (Suc i + k'))"
      "name (xs ! k') \<noteq> ''__proto__''"
      by simp_all
    then have "truthy (forEach_from (\<lambda>opt index. assign_if (g index) (name opt)) (Suc i) xs
                 (assign_if (g i) (name x) s) (name (xs ! k')))"
      by (rule Cons.IH)
    with Suc show ?thesis by simp
  qed
qed

lemma first_available_find: "find available vs = Some v \<Longrightarrow> first_available vs = Some v"
  by (simp add: first_available_def)

lemma find_Some_nonempty: "find P vs = Some v \<Longrightarrow> vs \<noteq> []"
  by (cases vs) auto

lemma initializeVariants_reset:
  "initializeVariants (this\<lparr>selectedVariants := sel\<rparr>) = initializeVariants this"
  by (simp add: initializeVariants_def)

lemma initializeVariants_modern:
  assumes "currentProduct this = Some p" and "find available (elements (variants p)) = Some v"
    and "present (options_with_values p)"
  shows "initializeVariants this =
    (Inr (), this\<lparr>selectedVariants :=
       forEach (\<lambda>opt index. assign_if (variant_option v (index + 1)) (name opt))
         (elements (options_with_values p)) Map.empty\<rparr>)"
proof -
  from assms(2) have "elements (variants p) \<noteq> []" by (rule find_Some_nonempty)
  then have "present (variants p)"
    by (auto simp: present_def elements_def split: option.splits)
  with assms show ?thesis
    by (simp add: initializeVariants_def first_available_find)
qed

lemma initializeVariants_legacy:
  assumes "currentProduct this = Some p" and "find available (elements (variants p)) = Some v"
    and "\<not> present (options_with_values p)" and "present (options p)"
  shows "initializeVariants this =
    (Inr (), this\<lparr>selectedVariants :=
       assign_if (option3 v) (legacy_name (elements (options p)) 2 ''Option 3'')
         (assign_if (option2 v) (legacy_name (elements (options p)) 1 ''Option 2'')
            (assign_if (option1 v) (legacy_name (elements (options p)) 0 ''Option 1'')
               Map.empty))\<rparr>)"
proof -
  from assms(2) have "elements (variants p) \<noteq> []" by (rule find_Some_nonempty)
  then have "present (variants p)"
    by (auto simp: present_def elements_def split: option.splits)
  with assms show ?thesis
    by (simp add: initializeVariants_def first_available_find)
qed

lemma initializeVariants_no_schema:
  assumes "currentProduct this = Some p"
    and "\<not> present (options_with_values p)" and "\<not> present (options p)"
  shows "initializeVariants this = (Inr (), this\<lparr>selectedVariants := Map.empty\<rparr>)"
  using assms
  by (auto simp: initializeVariants_def Let_def split: option.splits)

text \<open>
  C9, amended.  For a loaded product with an available variant, let \<open>v\<close> be the first
  one.  If \<open>v\<close> has a non-empty value in every option slot the product exposes (and the
  option names are not \<^verbatim>\<open>__proto__\<close> and, under the legacy schema, not empty), then
  \<^verbatim>\<open>initializeVariants\<close> returns normally and the selection names a non-empty chosen value
  for every option the product exposes, under either schema.  The selection is rebuilt
  from empty on every run: the result does not depend on the selection held before.
\<close>

theorem initializeVariants_covers:
  assumes "currentProduct this = Some p"
    and "find available (elements (variants p)) = Some v"
    and "\<forall>k<length (option_schema p). truthy (variant_option v (k + 1))"
    and "present (options_with_values p) \<or> (\<forall>opt\<in>set (option_schema p). name opt \<noteq> [])"
    and "\<forall>opt\<in>set (option_schema p). name opt \<noteq> ''__proto__''"
  shows "fst (initializeVariants this) = Inr ()
       \<and> (\<forall>opt\<in>set (option_schema p).
            truthy (selectedVariants (snd (initializeVariants this)) (name opt)))
       \<and> (\<forall>sel. initializeVariants (this\<lparr>selectedVariants := sel\<rparr>) = initializeVariants this)"
proof -
  have covered: "truthy (selectedVariants (snd (initializeVariants this)) (name opt))"
    if opt: "opt \<in> set (option_schema p)" for opt
  proof -
    from opt obtain k where k: "k < length (option_schema p)" "option_schema p ! k = opt"
      by (auto simp: in_set_conv_nth)
    with assms(3) have slot: "truthy (variant_option v (k + 1))" by blast
    from opt assms(5) have plain: "name opt \<noteq> ''__proto__''" by blast
    show ?thesis
    proof (cases "present (options_with_values p)")
      case True
      then have schema: "option_schema p = elements (options_with_values p)"
        by (simp add: option_schema_def)
      from k slot plain have "truthy (forEach_from
          (\<lambda>opt index. assign_if (variant_option v (index + 1)) (name opt)) 0
          (option_schema p) Map.empty (name (option_schema p ! k)))"
        by (intro forEach_from_covers [where g = "\<lambda>index. variant_option v (index + 1)"])
           simp_all
      with k schema show ?thesis
        by (simp add: initializeVariants_modern [OF assms(1,2) True] forEach_def)
    next
      case False
      then have schema: "option_schema p = elements (options p)"
        by (simp add: option_schema_def)
      with k have pres: "present (options p)"
        by (auto simp: present_def elements_def split: option.splits)
      from False assms(4) opt k have named: "name (option_schema p ! k) \<noteq> []" by auto
      have k3: "k < 3"
      proof (rule ccontr)
        assume "\<not> k < 3"
        then have "3 \<le> k" by simp
        then obtain n where "k = 3 + n" using le_Suc_ex by blast
        then have "k + 1 = Suc (Suc (Suc (Suc n)))" by simp
        with slot show False by (simp add: truthy_def)
      qed
      let ?opts = "elements (options p)"
      let ?sel = "assign_if (option3 v) (legacy_name ?opts 2 ''Option 3'')
         (assign_if (option2 v) (legacy_name ?opts 1 ''Option 2'')
            (assign_if (option1 v) (legacy_name ?opts 0 ''Option 1'') Map.empty))"
      have key: "legacy_name ?opts k d = name opt" for d
        using k named schema by (simp add: legacy_name_def)
      let ?s1 = "assign_if (option1 v) (legacy_name ?opts 0 ''Option 1'') Map.empty"
      let ?s2 = "assign_if (option2 v) (legacy_name ?opts 1 ''Option 2'') ?s1"
      from k3 consider "k = 0" | "k = 1" | "k = 2" by linarith
      then have "truthy (?sel (name opt))"
      proof cases
        case 1
        with slot have "truthy (option1 v)" by simp
        then have "truthy (assign_if (option1 v) (name opt) Map.empty (name opt))"
          using plain by (rule assign_if_sets)
        then have "truthy (?s1 (name opt))"
          using key [of "''Option 1''"] 1 by simp
        then have "truthy (?s2 (name opt))" by (rule assign_if_keeps)
        then show ?thesis by (rule assign_if_keeps)
      next
        case 2
        with slot have "truthy (option2 v)" by simp
        then have "truthy (assign_if (option2 v) (name opt) ?s1 (name opt))"
          using plain by (rule assign_if_sets)
        then have "truthy (?s2 (name opt))"
          using key [of "''Option 2''"] 2 by simp
        then show ?thesis by (rule assign_if_keeps)
      next
        case 3
        with slot have "truthy (option3 v)" by (simp add: numeral_2_eq_2)
        then have "truthy (assign_if (option3 v) (name opt) ?s2 (name opt))"
          using plain by (rule assign_if_sets)
        then show ?thesis
          using key [of "''Option 3''"] 3 by simp
      qed
      then show ?thesis
        by (simp add: initializeVariants_legacy [OF assms(1,2) False pres])
    qed
  qed
  have ok: "fst (initializeVariants this) = Inr ()"
  proof (cases "present (options_with_values p)")
    case True
    then show ?thesis by (simp add: initializeVariants_modern [OF assms(1,2)])
  next
    case False
    show ?thesis
    proof (cases "present (options p)")
      case True
      then show ?thesis by (simp add: initializeVariants_legacy [OF assms(1,2) False])
    next
      case no: False
      then show ?thesis by (simp add: initializeVariants_no_schema [OF assms(1) False])
    qed
  qed
  from ok covered initializeVariants_reset show ?thesis by blast
qed

lemma tee_first_available: "find available (elements (variants tee)) = Some red_medium"
  by (simp add: tee_def elements_def red_small_def red_medium_def)

lemma cap_facts:
  "currentProduct cap_page = Some cap"
  "option_schema cap = [size_option]"
  "find available (elements (variants cap)) = Some cap_small"
  "present (options_with_values cap) = False"
  by (simp_all add: cap_page_def mounted_def cap_def option_schema_def present_def elements_def
        cap_small_def)

text \<open>The tee (modern schema) and the cap (legacy schema) are covered.\<close>

theorem initializeVariants_covers_witness:
  "find available (elements (variants tee)) = Some red_medium
   \<and> truthy (selectedVariants (snd (initializeVariants tee_page)) ''Color'')
   \<and> truthy (selectedVariants (snd (initializeVariants tee_page)) ''Size'')
   \<and> find available (elements (variants cap)) = Some cap_small
   \<and> truthy (selectedVariants (snd (initializeVariants cap_page)) ''Size'')"
proof -
  have t1: "currentProduct tee_page = Some tee"
    by (simp add: tee_page_def mounted_def)
  have t2: "find available (elements (variants tee)) = Some red_medium"
    by (rule tee_first_available)
  have schema: "option_schema tee = [color_option, size_option]"
    by (simp add: tee_def option_schema_def present_def elements_def)
  have t3: "\<forall>k<length (option_schema tee). truthy (variant_option red_medium (k + 1))"
    by (simp add: schema All_less_Suc2 truthy_def red_medium_def)
  have t4: "present (options_with_values tee)
            \<or> (\<forall>opt\<in>set (option_schema tee). name opt \<noteq> [])"
    by (simp add: tee_def present_def)
  have t5: "\<forall>opt\<in>set (option_schema tee). name opt \<noteq> ''__proto__''"
    by (simp add: schema color_option_def size_option_def)
  from initializeVariants_covers [OF t1 t2 t3 t4 t5]
  have "\<forall>opt\<in>set (option_schema tee).
          truthy (selectedVariants (snd (initializeVariants tee_page)) (name opt))"
    by blast
  then have tee_ok: "truthy (selectedVariants (snd (initializeVariants tee_page)) ''Color'')"
      "truthy (selectedVariants (snd (initializeVariants tee_page)) ''Size'')"
    by (simp_all add: schema color_option_def size_option_def)
  have c3: "\<forall>k<length (option_schema cap). truthy (variant_option cap_small (k + 1))"
    by (simp add: cap_facts truthy_def cap_small_def)
  have c4: "present (options_with_values cap)
            \<or> (\<forall>opt\<in>set (option_schema cap). name opt \<noteq> [])"
    by (simp add: cap_facts size_option_def)
  have c5: "\<forall>opt\<in>set (option_schema cap). name opt \<noteq> ''__proto__''"
    by (simp add: cap_facts size_option_def)
  from initializeVariants_covers [OF cap_facts(1) cap_facts(3) c3 c4 c5]
  have "\<forall>opt\<in>set (option_schema cap).
          truthy (selectedVariants (snd (initializeVariants cap_page)) (name opt))"
    by blast
  then have cap_ok: "truthy (selectedVariants (snd (initializeVariants cap_page)) ''Size'')"
    by (simp add: cap_facts size_option_def)
  from t2 tee_ok cap_facts(3) cap_ok show ?thesis by blast
qed

text \<open>
  The scarf has an available variant, yet after \<^verbatim>\<open>initializeVariants\<close> the selection has
  no value for its option \<^verbatim>\<open>Size\<close>: the variant has none in that slot, and the guard
  \<^verbatim>\<open>if (optionValue)\<close> skips the assignment.
\<close>

theorem initializeVariants_counterexample:
  "currentProduct scarf_page = Some scarf
   \<and> find available (elements (variants scarf)) = Some scarf_red
   \<and> available scarf_red
   \<and> option_schema scarf = [color_option, size_option]
   \<and> name size_option = ''Size''
   \<and> selectedVariants (snd (initializeVariants scarf_page)) ''Color'' = Some ''Red''
   \<and> selectedVariants (snd (initializeVariants scarf_page)) ''Size'' = None"
  by (simp add: scarf_page_def mounted_def scarf_def scarf_red_def option_schema_def
        present_def elements_def initializeVariants_def first_available_def forEach_def
        assign_if_def write_property_def color_option_def size_option_def)

text \<open>
  The gadget's only option is named \<^verbatim>\<open>__proto__\<close>.  The assignment of its value is
  ignored, so that the selection stays empty and no variant is ever resolved.
\<close>

lemma gadget_stays_unselected:
  "find available (elements (variants gadget)) = Some gadget_red
   \<and> option1 gadget_red = Some ''Red''
   \<and> selectedVariants (snd (initializeVariants gadget_page)) = Map.empty
   \<and> getSelectedVariant (snd (initializeVariants gadget_page)) = None"
proof -
  have init: "initializeVariants gadget_page = (Inr (), gadget_page)"
    by (simp add: gadget_page_def mounted_def gadget_def gadget_red_def present_def
          elements_def initializeVariants_def first_available_def forEach_def assign_if_def
          write_property_def proto_option_def)
  have "\<not> slot_agrees Map.empty gadget_red proto_option 0"
    by (simp add: slot_agrees_def Let_def read_property_def prototype_properties_def
          truthy_property_def strict_equal_def proto_option_def)
  then have "getSelectedVariant gadget_page = None"
    by (simp add: getSelectedVariant_def gadget_page_def mounted_def gadget_def present_def
          elements_def every_def)
  with init show ?thesis
    by (simp add: gadget_def gadget_red_def elements_def gadget_page_def mounted_def)
qed

section \<open>The price heuristic\<close>

lemma formatPrice_falsy: "falsy price \<Longrightarrow> formatPrice h price = []"
  by (simp add: formatPrice_def)

lemma formatPrice_cong:
  "currency_format h = currency_format h' \<Longrightarrow> formatPrice h price = formatPrice h' price"
  by (simp add: formatPrice_def)

lemma formatPrice_en_US:
  "formatPrice (h\<lparr>currency_format := en_US_currency\<rparr>) price = formatPrice browser price"
  by (rule formatPrice_cong) (simp add: browser_def)

lemma parseFloat_empty: "parseFloat [] = NaN"
  by (simp add: parseFloat_def)

lemma formatPrice_number_small:
  assumes "0 < a" and "a \<le> 1000"
  shows "formatPrice h (JNumber (Num False a)) =
           currency_format h
             (number_divide (number_times (Num False a) (Num False 100)) (Num False 100))"
  using assms by (simp add: formatPrice_def signed_def)

lemma formatPrice_number_large:
  assumes "1000 < a"
  shows "formatPrice h (JNumber (Num False a)) =
           currency_format h (number_divide (Num False a) (Num False 100))"
  using assms by (simp add: formatPrice_def signed_def)

lemma formatPrice_string_small:
  assumes "parseFloat str = Num False a" and "0 < a" and "a \<le> 1000"
  shows "formatPrice h (JString str) =
           currency_format h
             (number_divide (number_times (Num False a) (Num False 100)) (Num False 100))"
proof -
  from assms(1) have "str \<noteq> []" using parseFloat_empty by auto
  with assms show ?thesis by (simp add: formatPrice_def signed_def)
qed

lemma formatPrice_string_large:
  assumes "parseFloat str = Num False a" and "1000 < a"
  shows "formatPrice h (JString str) =
           currency_format h (number_divide (Num False a) (Num False 100))"
proof -
  from assms(1) have "str \<noteq> []" using parseFloat_empty by auto
  with assms show ?thesis by (simp add: formatPrice_def signed_def)
qed

lemma browser_2500: "formatPrice browser (JNumber (Num False 2500)) = ''$25.00''"
  by code_simp

lemma browser_1999: "formatPrice browser (JNumber (to_double False (1999 / 100))) = ''$19.99''"
  by code_simp

lemma browser_string_1999: "formatPrice browser (JString ''19.99'') = ''$19.99''"
  by code_simp

text \<open>
  C5.  \<^verbatim>\<open>formatPrice(2500)\<close> is \<^verbatim>\<open>$25.00\<close>.  A positive number, or the number a string
  parses to, that is at most 1000 is multiplied by 100 and then divided by 100 for display,
  so that \<^verbatim>\<open>formatPrice(19.99)\<close>, on the double nearest to 19.99 and on the string alike,
  is \<^verbatim>\<open>$19.99\<close> and not \<^verbatim>\<open>$0.20\<close>; a value above 1000 is taken to be in cents and only
  divided by 100.
\<close>

theorem formatPrice_heuristic:
  "formatPrice (h\<lparr>currency_format := en_US_currency\<rparr>) (JNumber (Num False 2500)) = ''$25.00''
   \<and> (\<forall>a. 0 < a \<and> a \<le> 1000 \<longrightarrow>
         formatPrice h (JNumber (Num False a)) =
           currency_format h
             (number_divide (number_times (Num False a) (Num False 100)) (Num False 100)))
   \<and> (\<forall>str a. parseFloat str = Num False a \<and> 0 < a \<and> a \<le> 1000 \<longrightarrow>
         formatPrice h (JString str) =
           currency_format h
             (number_divide (number_times (Num False a) (Num False 100)) (Num False 100)))
   \<and> formatPrice (h\<lparr>currency_format := en_US_currency\<rparr>)
         (JNumber (to_double False (1999 / 100))) = ''$19.99''
   \<and> formatPrice (h\<lparr>currency_format := en_US_currency\<rparr>)
         (JNumber (to_double False (1999 / 100))) \<noteq> ''$0.20''
   \<and> formatPrice (h\<lparr>currency_format := en_US_currency\<rparr>) (JString ''19.99'') = ''$19.99''
   \<and> (\<forall>a. 1000 < a \<longrightarrow>
         formatPrice h (JNumber (Num False a)) =
           currency_format h (number_divide (Num False a) (Num False 100)))
   \<and> (\<forall>str a. parseFloat str = Num False a \<and> 1000 < a \<longrightarrow>
         formatPrice h (JString str) =
           currency_format h (number_divide (Num False a) (Num False 100)))"
proof -
  have 1: "formatPrice (h\<lparr>currency_format := en_US_currency\<rparr>) (JNumber (Num False 2500))
           = ''$25.00''"
    by (simp only: formatPrice_en_US browser_2500)
  have 2: "formatPrice (h\<lparr>currency_format := en_US_currency\<rparr>)
             (JNumber (to_double False (1999 / 100))) = ''$19.99''"
    by (simp only: formatPrice_en_US browser_1999)
  have 3: "formatPrice (h\<lparr>currency_format := en_US_currency\<rparr>)
             (JNumber (to_double False (1999 / 100))) \<noteq> ''$0.20''"
    unfolding 2 by simp
  have 4: "formatPrice (h\<lparr>currency_format := en_US_currency\<rparr>) (JString ''19.99'') = ''$19.99''"
    by (simp only: formatPrice_en_US browser_string_1999)
  from 1 2 3 4 show ?thesis
    using formatPrice_number_small [of _ h] formatPrice_number_large [of _ h]
      formatPrice_string_small [of _ _ h] formatPrice_string_large [of _ _ h]
    by blast
qed

lemma five_dollars:
  "currency_format browser
     (number_divide (number_times (Num False 5) (Num False 100)) (Num False 100)) = ''$5.00''"
  by code_simp

lemma ten_dollars_one:
  "currency_format browser (number_divide (Num False 1001) (Num False 100)) = ''$10.01''"
  by code_simp

theorem formatPrice_heuristic_witness:
  "formatPrice browser (JNumber (Num False 5)) = ''$5.00''
   \<and> formatPrice browser (JNumber (Num False 1001)) = ''$10.01''"
proof -
  have small: "(0::rat) < 5 \<and> (5::rat) \<le> 1000" by simp
  have large: "(1000::rat) < 1001" by simp
  from formatPrice_heuristic [of browser] small
  have "formatPrice browser (JNumber (Num False 5)) =
          currency_format browser
            (number_divide (number_times (Num False 5) (Num False 100)) (Num False 100))"
    by blast
  then have a: "formatPrice browser (JNumber (Num False 5)) = ''$5.00''"
    by (simp only: five_dollars)
  from formatPrice_heuristic [of browser] large
  have "formatPrice browser (JNumber (Num False 1001)) =
          currency_format browser (number_divide (Num False 1001) (Num False 100))"
    by blast
  then have b: "formatPrice browser (JNumber (Num False 1001)) = ''$10.01''"
    by (simp only: ten_dollars_one)
  from a b show ?thesis ..
qed

section \<open>Falsy prices\<close>

text \<open>
  C10.  For every falsy price (either zero, \<^verbatim>\<open>null\<close>, \<^verbatim>\<open>undefined\<close>, the empty string,
  NaN) \<^verbatim>\<open>formatPrice\<close> returns the empty string, not \<^verbatim>\<open>$0.00\<close>.  So the drawer's
  subtotal of a cart whose total is zero, the price of a free line item, and the popup
  price of a free variant of a free product are rendered with no text.
\<close>

theorem formatPrice_falsy_empty:
  "formatPrice h (JNumber (Num s 0)) = []
   \<and> formatPrice h JNull = []
   \<and> formatPrice h JUndefined = []
   \<and> formatPrice h (JString []) = []
   \<and> formatPrice h (JNumber NaN) = []
   \<and> formatPrice h (JNumber (Num False 0)) \<noteq> ''$0.00''
   \<and> (\<forall>price. falsy price \<longrightarrow> formatPrice h price = [])
   \<and> (\<forall>c d. falsy (total_price c) \<longrightarrow> subtotal_amount (updateCartDrawer h c d) = [])
   \<and> (\<forall>item. falsy (final_price item) \<longrightarrow> row_price (cart_row h item) = [])
   \<and> (\<forall>p v groups. falsy (variant_price v) \<and> falsy (product_price p) \<longrightarrow>
         popup_price (popup_for h p (Some v) groups) = [])"
proof -
  have cases: "formatPrice h (JNumber (Num s 0)) = []" "formatPrice h JNull = []"
    "formatPrice h JUndefined = []" "formatPrice h (JString []) = []"
    "formatPrice h (JNumber NaN) = []"
    by (simp_all add: formatPrice_falsy)
  have zero: "formatPrice h (JNumber (Num False 0)) \<noteq> ''$0.00''"
    by (simp add: formatPrice_falsy)
  have drawer: "subtotal_amount (updateCartDrawer h c d) = []" if "falsy (total_price c)" for c d
    using that by (simp add: updateCartDrawer_def Let_def formatPrice_falsy)
  have row: "row_price (cart_row h item) = []" if "falsy (final_price item)" for item
    using that by (simp add: cart_row_def formatPrice_falsy)
  have popup: "popup_price (popup_for h p (Some v) groups) = []"
    if "falsy (variant_price v)" "falsy (product_price p)" for p v groups
    using that by (simp add: popup_for_def js_or_def formatPrice_falsy)
  from cases zero drawer row popup formatPrice_falsy [of _ h] show ?thesis by blast
qed

theorem formatPrice_falsy_empty_witness:
  "falsy (total_price empty_cart)
   \<and> subtotal_amount (updateCartDrawer browser empty_cart createCartDrawer) = []"
proof -
  have zero: "falsy (total_price empty_cart)"
    by (simp add: empty_cart_def)
  with formatPrice_falsy_empty [of browser]
  have "subtotal_amount (updateCartDrawer browser empty_cart createCartDrawer) = []"
    by blast
  with zero show ?thesis ..
qed

section \<open>Products without options\<close>

lemma getSelectedVariant_no_schema:
  assumes "currentProduct this = Some p"
    and "\<not> present (options_with_values p)" and "\<not> present (options p)"
  shows "getSelectedVariant this = None"
proof (cases "variants p")
  case None
  with assms show ?thesis by (simp add: getSelectedVariant_def)
next
  case (Some vs)
  have "find (\<lambda>v. False) vs = None" by (induction vs) simp_all
  with assms Some show ?thesis by (simp add: getSelectedVariant_def)
qed

text \<open>
  C4, amended.  For a loaded product whose option schema is empty or absent, whatever its
  variants, \<^verbatim>\<open>getSelectedVariant\<close> resolves no variant, and the rendered popup shows the
  product's own price (\<^verbatim>\<open>formatPrice(product.price)\<close>) and the product's own image (its
  featured image, else its first gallery image, else the placeholder), no option groups,
  and a disabled add-to-cart button reading \<^verbatim>\<open>OUT OF STOCK\<close> with no variant id.
\<close>

theorem no_options_popup:
  assumes "currentProduct this = Some p"
    and "\<not> present (options_with_values p)" and "\<not> present (options p)"
    and "ref_popupContent this"
  shows "getSelectedVariant this = None
       \<and> (\<exists>m. renderProductPopup h this = (Inr (), this\<lparr>popupContent := Some m\<rparr>)
              \<and> popup_price m = formatPrice h (product_price p)
              \<and> popup_image m =
                   (if truthy (featured_image p) then the (featured_image p)
                    else if present (images p) then src (hd (elements (images p)))
                    else ''https://via.placeholder.com/400x400?text=Product+Image'')
              \<and> popup_variants m = []
              \<and> add_to_cart_disabled m
              \<and> data_variant_id m = None
              \<and> add_to_cart_text m = ''OUT OF STOCK'')"
proof -
  have none: "getSelectedVariant this = None"
    using assms(1-3) by (rule getSelectedVariant_no_schema)
  have groups: "renderVariantOptions this = Inr []"
    using assms(1-3) by (simp add: renderVariantOptions_def)
  let ?m = "popup_for h p None []"
  have render: "renderProductPopup h this = (Inr (), this\<lparr>popupContent := Some ?m\<rparr>)"
    using assms(1,4) none groups by (simp add: renderProductPopup_def)
  have "popup_price ?m = formatPrice h (product_price p)"
    by (simp add: popup_for_def js_or_def)
  moreover have "popup_image ?m =
      (if truthy (featured_image p) then the (featured_image p)
       else if present (images p) then src (hd (elements (images p)))
       else ''https://via.placeholder.com/400x400?text=Product+Image'')"
    by (simp add: popup_for_def getProductImage_def)
  moreover have "popup_variants ?m = []" "add_to_cart_disabled ?m" "data_variant_id ?m = None"
    "add_to_cart_text ?m = ''OUT OF STOCK''"
    by (simp_all add: popup_for_def)
  ultimately show ?thesis using none render by blast
qed

lemma mug_facts:
  "currentProduct mug_page = Some mug"
  "\<not> present (options_with_values mug)" "\<not> present (options mug)"
  "ref_popupContent mug_page"
  "variants mug = Some [mug_large, mug_small]"
  "product_price mug = JNumber (Num False 2500)"
  "featured_image mug = Some ''mug.jpg''"
  by (simp_all add: mug_page_def mounted_def mug_def present_def)

lemma browser_3000: "formatPrice browser (JNumber (Num False 3000)) = ''$30.00''"
  by code_simp

theorem no_options_popup_witness:
  "getSelectedVariant mug_page = None
   \<and> (\<exists>m. renderProductPopup browser mug_page = (Inr (), mug_page\<lparr>popupContent := Some m\<rparr>)
          \<and> popup_price m = ''$25.00'' \<and> popup_image m = ''mug.jpg''
          \<and> add_to_cart_disabled m)"
proof -
  from no_options_popup [OF mug_facts(1-4), of browser]
  obtain m where m: "getSelectedVariant mug_page = None"
      "renderProductPopup browser mug_page = (Inr (), mug_page\<lparr>popupContent := Some m\<rparr>)"
      "popup_price m = formatPrice browser (product_price mug)"
      "popup_image m =
         (if truthy (featured_image mug) then the (featured_image mug)
          else if present (images mug) then src (hd (elements (images mug)))
          else ''https://via.placeholder.com/400x400?text=Product+Image'')"
      "add_to_cart_disabled m"
    by blast
  from m(3) have "popup_price m = ''$25.00''"
    by (simp only: mug_facts browser_2500)
  moreover from m(4) have "popup_image m = ''mug.jpg''"
    by (simp add: mug_facts truthy_def)
  ultimately show ?thesis using m(1,2,5) by blast
qed

text \<open>
  The mug has no options and two variants.  Its popup shows \<^verbatim>\<open>$25.00\<close> and \<^verbatim>\<open>mug.jpg\<close>,
  the product's price and image, while its first variant costs \<^verbatim>\<open>$30.00\<close> and has the
  image \<^verbatim>\<open>large.jpg\<close>; no variant is selected and the button is disabled.
\<close>

theorem first_variant_not_shown_counterexample:
  "options_with_values mug = None \<and> options mug = None
   \<and> variants mug = Some [mug_large, mug_small]
   \<and> getSelectedVariant mug_page = None
   \<and> map_option popup_price (popupContent (snd (renderProductPopup browser mug_page)))
       = Some ''$25.00''
   \<and> formatPrice browser (variant_price mug_large) = ''$30.00''
   \<and> map_option popup_image (popupContent (snd (renderProductPopup browser mug_page)))
       = Some ''mug.jpg''
   \<and> variant_featured_image mug_large = Some ''large.jpg''
   \<and> map_option add_to_cart_disabled (popupContent (snd (renderProductPopup browser mug_page)))
       = Some True"
proof -
  have none: "getSelectedVariant mug_page = None"
    using mug_facts(1-3) by (rule getSelectedVariant_no_schema)
  have groups: "renderVariantOptions mug_page = Inr []"
    using mug_facts(1-3) by (simp add: renderVariantOptions_def)
  have render: "renderProductPopup browser mug_page =
      (Inr (), mug_page\<lparr>popupContent := Some (popup_for browser mug None [])\<rparr>)"
    using mug_facts(1,4) none groups by (simp add: renderProductPopup_def)
  have shown: "popup_price (popup_for browser mug None []) = ''$25.00''"
    "popup_image (popup_for browser mug None []) = ''mug.jpg''"
    "add_to_cart_disabled (popup_for browser mug None [])"
    by (simp_all add: popup_for_def js_or_def mug_facts browser_2500 getProductImage_def
          truthy_def)
  have first: "formatPrice browser (variant_price mug_large) = ''$30.00''"
    "variant_featured_image mug_large = Some ''large.jpg''"
    by (simp_all add: mug_large_def browser_3000)
  have schema: "options_with_values mug = None" "options mug = None"
    by (simp_all add: mug_def)
  from schema mug_facts(5) none first shown show ?thesis
    by (simp add: render)
qed

section \<open>The add-to-cart flow\<close>

lemma emit_simps [simp]:
  "trace (emit e s) = trace s @ [e]"
  "currentProduct (emit e s) = currentProduct s"
  "selectedVariants (emit e s) = selectedVariants s"
  "ref_popupOverlay (emit e s) = ref_popupOverlay s"
  "ref_popupContent (emit e s) = ref_popupContent s"
  "popupContent (emit e s) = popupContent s"
  "popup_active (emit e s) = popup_active s"
  "body_overflow (emit e s) = body_overflow s"
  by (simp_all add: emit_def)

lemma closePopup_simps [simp]:
  "trace (closePopup s) = trace s"
  "ref_popupOverlay (closePopup s) = ref_popupOverlay s"
  "\<not> isPopupOpen (closePopup s)"
  by (simp_all add: closePopup_def isPopupOpen_def)

lemma isPopupOpen_emit [simp]: "isPopupOpen (emit e s) = isPopupOpen s"
  by (simp add: isPopupOpen_def)

lemma addToCart_Parsed:
  "addToCart (Parsed u) variantId quantity s =
     (Inr (), emit TriggerCartUpdate (emit UpdateCartCount (emit (CartAdd variantId quantity) s)))"
  by (simp add: addToCart_def Let_def)

lemma addToCart_failure:
  assumes "\<forall>u. response \<noteq> Parsed u"
  shows "\<exists>e. addToCart response variantId quantity s =
     (Inl e, emit (ConsoleError ''Add to cart error:'') (emit (CartAdd variantId quantity) s))"
  using assms by (cases response) (simp_all add: addToCart_def Let_def)

lemma addToCart_trace:
  "\<exists>rest. trace (snd (addToCart response variantId quantity s)) =
     trace s @ CartAdd variantId quantity # rest"
  by (cases response) (simp_all add: addToCart_def Let_def)

lemma addDarkWinterJacketToCart_returns:
  "fst (addDarkWinterJacketToCart response s) = Inr ()"
  by (cases response) (simp_all add: addDarkWinterJacketToCart_def addToCart_def Let_def)

lemma addDarkWinterJacketToCart_failure:
  assumes "\<forall>u. response \<noteq> Parsed u"
  shows "addDarkWinterJacketToCart response s =
     (Inr (), emit (ConsoleError ''Error adding Dark Winter Jacket to cart:'')
                (emit (ConsoleError ''Add to cart error:'')
                   (emit (CartAdd darkWinterJacketVariantId 1) s)))"
proof -
  from addToCart_failure [OF assms] obtain e where
    "addToCart response darkWinterJacketVariantId 1 s =
       (Inl e, emit (ConsoleError ''Add to cart error:'')
                 (emit (CartAdd darkWinterJacketVariantId 1) s))"
    by blast
  then show ?thesis by (simp add: addDarkWinterJacketToCart_def)
qed

lemma addDarkWinterJacketToCart_trace:
  "\<exists>rest. trace (snd (addDarkWinterJacketToCart response s)) = trace s @ rest"
  by (cases response) (simp_all add: addDarkWinterJacketToCart_def addToCart_def Let_def)

lemma handleAddToCart_blocked:
  assumes "getSelectedVariant this = None \<or> (\<exists>v. getSelectedVariant this = Some v \<and> \<not> available v)"
  shows "handleAddToCart primary bundle this = (Inr (), this)"
    and "handleAddToCart_drawer primary bundle this = (Inr (), this)"
  using assms by (auto simp: handleAddToCart_def handleAddToCart_drawer_def)

lemma handleAddToCart_requests:
  assumes "getSelectedVariant this = Some v" and "available v"
  shows "\<exists>rest. trace (snd (handleAddToCart primary bundle this)) =
           trace this @ CartAdd (variant_id v) 1 # rest"
proof -
  obtain r1 s1 where first: "addToCart primary (variant_id v) 1 this = (r1, s1)"
    by (cases "addToCart primary (variant_id v) 1 this")
  from addToCart_trace [of primary "variant_id v" 1 this] first
  obtain rest1 where t1: "trace s1 = trace this @ CartAdd (variant_id v) 1 # rest1"
    by auto
  show ?thesis
  proof (cases r1)
    case (Inl e)
    with assms first t1 show ?thesis
      by (simp add: handleAddToCart_def add_failed_def)
  next
    case (Inr u)
    obtain r2 s2 where second:
      "(if shouldAutoAddDarkWinterJacket v then addDarkWinterJacketToCart bundle s1
        else (Inr (), s1)) = (r2, s2)"
      by (cases "if shouldAutoAddDarkWinterJacket v then addDarkWinterJacketToCart bundle s1
                 else (Inr (), s1)")
    have "\<exists>rest. trace s2 = trace s1 @ rest"
    proof (cases "shouldAutoAddDarkWinterJacket v")
      case True
      with second addDarkWinterJacketToCart_trace [of "bundle" s1] show ?thesis by auto
    next
      case False
      with second show ?thesis by auto
    qed
    then obtain rest2 where t2: "trace s2 = trace s1 @ rest2" by blast
    from assms first Inr second t1 t2 show ?thesis
      by (cases r2) (simp_all add: handleAddToCart_def add_failed_def)
  qed
qed

lemma handleAddToCart_drawer_requests:
  assumes "getSelectedVariant this = Some v" and "available v"
  shows "\<exists>rest. trace (snd (handleAddToCart_drawer primary bundle this)) =
           trace this @ CartAdd (variant_id v) 1 # rest"
proof -
  obtain r1 s1 where first: "addToCart primary (variant_id v) 1 this = (r1, s1)"
    by (cases "addToCart primary (variant_id v) 1 this")
  from addToCart_trace [of primary "variant_id v" 1 this] first
  obtain rest1 where t1: "trace s1 = trace this @ CartAdd (variant_id v) 1 # rest1"
    by auto
  show ?thesis
  proof (cases r1)
    case (Inl e)
    with assms first t1 show ?thesis
      by (simp add: handleAddToCart_drawer_def add_failed_def)
  next
    case (Inr u)
    obtain r2 s2 where second:
      "(if shouldAutoAddDarkWinterJacket v then addDarkWinterJacketToCart bundle s1
        else (Inr (), s1)) = (r2, s2)"
      by (cases "if shouldAutoAddDarkWinterJacket v then addDarkWinterJacketToCart bundle s1
                 else (Inr (), s1)")
    have "\<exists>rest. trace s2 = trace s1 @ rest"
    proof (cases "shouldAutoAddDarkWinterJacket v")
      case True
      with second addDarkWinterJacketToCart_trace [of "bundle" s1] show ?thesis by auto
    next
      case False
      with second show ?thesis by auto
    qed
    then obtain rest2 where t2: "trace s2 = trace s1 @ rest2" by blast
    from assms first Inr second t1 t2 show ?thesis
      by (cases r2) (simp_all add: handleAddToCart_drawer_def add_failed_def)
  qed
qed

text \<open>
  C6.  In every component state, \<^verbatim>\<open>handleAddToCart\<close> sends a cart-add request only if
  \<^verbatim>\<open>getSelectedVariant\<close> resolves a variant and that variant is available, and then the
  request for that variant is the first thing it does; otherwise it returns with the state
  unchanged: no request, no cart mutation, no other effect.  The same holds for the second
  listing of the handler.
\<close>

theorem handleAddToCart_guard:
  "((getSelectedVariant this = None
       \<or> (\<exists>v. getSelectedVariant this = Some v \<and> \<not> available v))
     \<longrightarrow> handleAddToCart primary bundle this = (Inr (), this)
         \<and> handleAddToCart_drawer primary bundle this = (Inr (), this))
   \<and> (\<forall>v. getSelectedVariant this = Some v \<and> available v \<longrightarrow>
         (\<exists>rest. trace (snd (handleAddToCart primary bundle this)) =
                    trace this @ CartAdd (variant_id v) 1 # rest)
       \<and> (\<exists>rest. trace (snd (handleAddToCart_drawer primary bundle this)) =
                    trace this @ CartAdd (variant_id v) 1 # rest))
   \<and> (snd (handleAddToCart primary bundle this) \<noteq> this
        \<or> snd (handleAddToCart_drawer primary bundle this) \<noteq> this
       \<longrightarrow> (\<exists>v. getSelectedVariant this = Some v \<and> available v))"
proof -
  have blocked: "handleAddToCart primary bundle this = (Inr (), this)
      \<and> handleAddToCart_drawer primary bundle this = (Inr (), this)"
    if "getSelectedVariant this = None
        \<or> (\<exists>v. getSelectedVariant this = Some v \<and> \<not> available v)"
    using handleAddToCart_blocked [OF that] by blast
  have only_if: "\<exists>v. getSelectedVariant this = Some v \<and> available v"
    if "snd (handleAddToCart primary bundle this) \<noteq> this
        \<or> snd (handleAddToCart_drawer primary bundle this) \<noteq> this"
  proof (rule ccontr)
    assume "\<not> (\<exists>v. getSelectedVariant this = Some v \<and> available v)"
    then have "getSelectedVariant this = None
        \<or> (\<exists>v. getSelectedVariant this = Some v \<and> \<not> available v)"
      by (cases "getSelectedVariant this") auto
    from blocked [OF this] that show False by simp
  qed
  from blocked only_if handleAddToCart_requests handleAddToCart_drawer_requests
  show ?thesis by blast
qed

lemma red_small_page:
  "getSelectedVariant (tee_page\<lparr>selectedVariants := [''Color'' \<mapsto> ''Red'', ''Size'' \<mapsto> ''S'']\<rparr>)
     = Some red_small"
  "\<not> available red_small"
  by (simp_all add: getSelectedVariant_def tee_page_def mounted_def tee_def present_def
        elements_def every_def slot_agrees_def read_property_def truthy_property_def
        strict_equal_def prototype_properties_def red_small_def color_option_def
        size_option_def variant_option_def)

lemma hoodie_facts:
  "getSelectedVariant hoodie_page = Some black_m"
  "available black_m"
  "variant_id black_m = 201"
  "trace hoodie_page = []"
  "isPopupOpen hoodie_page"
  by (simp_all add: getSelectedVariant_def hoodie_page_def mounted_def hoodie_def present_def
        elements_def every_def slot_agrees_def read_property_def truthy_property_def
        strict_equal_def prototype_properties_def black_m_def color_option_def
        size_option_def isPopupOpen_def)

text \<open>
  With the unavailable red small tee selected nothing happens; with the hoodie's available
  variant the request for it is sent.
\<close>

theorem handleAddToCart_guard_witness:
  "getSelectedVariant (tee_page\<lparr>selectedVariants := [''Color'' \<mapsto> ''Red'', ''Size'' \<mapsto> ''S'']\<rparr>)
     = Some red_small
   \<and> \<not> available red_small
   \<and> handleAddToCart (Parsed ()) (Parsed ())
        (tee_page\<lparr>selectedVariants := [''Color'' \<mapsto> ''Red'', ''Size'' \<mapsto> ''S'']\<rparr>)
      = (Inr (), tee_page\<lparr>selectedVariants := [''Color'' \<mapsto> ''Red'', ''Size'' \<mapsto> ''S'']\<rparr>)
   \<and> getSelectedVariant hoodie_page = Some black_m \<and> available black_m
   \<and> (\<exists>rest. trace (snd (handleAddToCart (Parsed ()) Rejected hoodie_page)) =
                CartAdd 201 1 # rest)"
proof -
  let ?page = "tee_page\<lparr>selectedVariants := [''Color'' \<mapsto> ''Red'', ''Size'' \<mapsto> ''S'']\<rparr>"
  have "getSelectedVariant ?page = None
        \<or> (\<exists>v. getSelectedVariant ?page = Some v \<and> \<not> available v)"
    using red_small_page by blast
  with handleAddToCart_guard [of ?page "Parsed ()" "Parsed ()"]
  have blocked: "handleAddToCart (Parsed ()) (Parsed ()) ?page = (Inr (), ?page)"
    by blast
  have "getSelectedVariant hoodie_page = Some black_m \<and> available black_m"
    using hoodie_facts by blast
  with handleAddToCart_guard [of hoodie_page "Parsed ()" Rejected]
  have "\<exists>rest. trace (snd (handleAddToCart (Parsed ()) Rejected hoodie_page)) =
                trace hoodie_page @ CartAdd (variant_id black_m) 1 # rest"
    by blast
  then have sent: "\<exists>rest. trace (snd (handleAddToCart (Parsed ()) Rejected hoodie_page)) =
                CartAdd 201 1 # rest"
    by (simp add: hoodie_facts)
  from red_small_page blocked hoodie_facts(1,2) sent show ?thesis by blast
qed

section \<open>Failure of the bundle request\<close>

text \<open>
  C7.  \<^verbatim>\<open>addDarkWinterJacketToCart\<close> never throws.  When the resolved variant is available
  and triggers the bundle, the primary request succeeds and the bundle request fails, the
  failure is logged inside \<^verbatim>\<open>addDarkWinterJacketToCart\<close> and the flow goes on: the handler
  returns normally, the popup is closed, the success notification is shown and no error
  notification is.  The effects are exactly the two requests, the cart refreshes of the
  first, the two console errors of the second, and the success message (followed, in the
  second listing, by the start of the cart drawer).
\<close>

theorem bundle_failure_isolated:
  assumes "getSelectedVariant this = Some v" and "available v"
    and "shouldAutoAddDarkWinterJacket v" and "\<forall>u. bundle \<noteq> Parsed u"
  shows "fst (addDarkWinterJacketToCart bundle s) = Inr ()
       \<and> fst (handleAddToCart (Parsed ()) bundle this) = Inr ()
       \<and> \<not> isPopupOpen (snd (handleAddToCart (Parsed ()) bundle this))
       \<and> trace (snd (handleAddToCart (Parsed ()) bundle this)) =
           trace this @
           [CartAdd (variant_id v) 1, UpdateCartCount, TriggerCartUpdate,
            CartAdd darkWinterJacketVariantId 1,
            ConsoleError ''Add to cart error:'',
            ConsoleError ''Error adding Dark Winter Jacket to cart:'',
            SuccessMessage ''Product added to cart!'']
       \<and> fst (handleAddToCart_drawer (Parsed ()) bundle this) = Inr ()
       \<and> \<not> isPopupOpen (snd (handleAddToCart_drawer (Parsed ()) bundle this))
       \<and> trace (snd (handleAddToCart_drawer (Parsed ()) bundle this)) =
           trace this @
           [CartAdd (variant_id v) 1, UpdateCartCount, TriggerCartUpdate,
            CartAdd darkWinterJacketVariantId 1,
            ConsoleError ''Add to cart error:'',
            ConsoleError ''Error adding Dark Winter Jacket to cart:'',
            SuccessMessage ''Product added to cart!'', ShowCartDrawer]"
proof -
  let ?s1 = "emit TriggerCartUpdate (emit UpdateCartCount (emit (CartAdd (variant_id v) 1) this))"
  let ?s2 = "emit (ConsoleError ''Error adding Dark Winter Jacket to cart:'')
               (emit (ConsoleError ''Add to cart error:'')
                  (emit (CartAdd darkWinterJacketVariantId 1) ?s1))"
  have jacket: "addDarkWinterJacketToCart bundle ?s1 = (Inr (), ?s2)"
    using assms(4) by (rule addDarkWinterJacketToCart_failure)
  have plain: "handleAddToCart (Parsed ()) bundle this =
      (Inr (), emit (SuccessMessage ''Product added to cart!'') (closePopup ?s2))"
    using assms(1-3) jacket by (simp add: handleAddToCart_def addToCart_Parsed)
  have drawer: "handleAddToCart_drawer (Parsed ()) bundle this =
      (Inr (), emit ShowCartDrawer
                 (emit (SuccessMessage ''Product added to cart!'') (closePopup ?s2)))"
    using assms(1-3) jacket by (simp add: handleAddToCart_drawer_def addToCart_Parsed)
  show ?thesis
    unfolding plain drawer by (simp add: addDarkWinterJacketToCart_returns)
qed

lemma black_m_triggers: "shouldAutoAddDarkWinterJacket black_m"
  by (simp add: shouldAutoAddDarkWinterJacket_def Let_def truthy_def black_m_def
        toLowerCase_def lower_char_def)

text \<open>The hoodie in black and M, the bundle request answered with status 422.\<close>

theorem bundle_failure_isolated_witness:
  "getSelectedVariant hoodie_page = Some black_m \<and> available black_m
   \<and> shouldAutoAddDarkWinterJacket black_m
   \<and> isPopupOpen hoodie_page
   \<and> \<not> isPopupOpen (snd (handleAddToCart (Parsed ()) (NotOk 422 None) hoodie_page))
   \<and> trace (snd (handleAddToCart (Parsed ()) (NotOk 422 None) hoodie_page)) =
       [CartAdd 201 1, UpdateCartCount, TriggerCartUpdate,
        CartAdd 52160865337711 1,
        ConsoleError ''Add to cart error:'',
        ConsoleError ''Error adding Dark Winter Jacket to cart:'',
        SuccessMessage ''Product added to cart!'']"
proof -
  have failed: "\<forall>u. NotOk 422 None \<noteq> (Parsed u :: unit fetched)" by simp
  from bundle_failure_isolated [OF hoodie_facts(1,2) black_m_triggers failed]
  have "\<not> isPopupOpen (snd (handleAddToCart (Parsed ()) (NotOk 422 None) hoodie_page))"
    and "trace (snd (handleAddToCart (Parsed ()) (NotOk 422 None) hoodie_page)) =
           trace hoodie_page @
           [CartAdd (variant_id black_m) 1, UpdateCartCount, TriggerCartUpdate,
            CartAdd darkWinterJacketVariantId 1,
            ConsoleError ''Add to cart error:'',
            ConsoleError ''Error adding Dark Winter Jacket to cart:'',
            SuccessMessage ''Product added to cart!'']"
    by blast+
  then show ?thesis
    using hoodie_facts black_m_triggers by (simp add: darkWinterJacketVariantId_def)
qed

section \<open>Failure of the product request\<close>

lemma openPopup_simps [simp]:
  "trace (openPopup s) = trace s"
  "popupContent (openPopup s) = popupContent s"
  "currentProduct (openPopup s) = currentProduct s"
  "selectedVariants (openPopup s) = selectedVariants s"
  "ref_popupOverlay (openPopup s) = ref_popupOverlay s"
  "isPopupOpen (openPopup s) = ref_popupOverlay s"
  by (simp_all add: openPopup_def isPopupOpen_def)

lemma initializeVariants_frame:
  "ref_popupOverlay (snd (initializeVariants s)) = ref_popupOverlay s"
  "ref_popupContent (snd (initializeVariants s)) = ref_popupContent s"
  "popupContent (snd (initializeVariants s)) = popupContent s"
  "trace (snd (initializeVariants s)) = trace s"
  "currentProduct (snd (initializeVariants s)) = currentProduct s"
  by (simp_all add: initializeVariants_def Let_def split: option.splits)

lemma renderProductPopup_frame:
  "ref_popupOverlay (snd (renderProductPopup h s)) = ref_popupOverlay s"
  "trace (snd (renderProductPopup h s)) = trace s"
  "currentProduct (snd (renderProductPopup h s)) = currentProduct s"
  "selectedVariants (snd (renderProductPopup h s)) = selectedVariants s"
  by (simp_all add: renderProductPopup_def split: option.splits sum.splits)

lemma renderProductPopup_throws:
  "fst (renderProductPopup h s) = Inl e \<Longrightarrow> snd (renderProductPopup h s) = s"
  by (auto simp: renderProductPopup_def split: option.splits sum.splits if_splits)

lemma loadProduct_overlay:
  "ref_popupOverlay (snd (loadProduct h response productIdentifier s)) = ref_popupOverlay s"
proof (cases response)
  case (Parsed p)
  let ?s0 = "emit (Fetch (''/products/'' @ productIdentifier @ ''.js'')) s\<lparr>currentProduct := Some p\<rparr>"
  obtain r1 s1 where init: "initializeVariants ?s0 = (r1, s1)"
    by (cases "initializeVariants ?s0")
  obtain r2 s2 where render: "renderProductPopup h s1 = (r2, s2)"
    by (cases "renderProductPopup h s1")
  from initializeVariants_frame(1) [of ?s0] init have 1: "ref_popupOverlay s1 = ref_popupOverlay s"
    by simp
  from renderProductPopup_frame(1) [of h s1] render have 2: "ref_popupOverlay s2 = ref_popupOverlay s1"
    by simp
  from Parsed init render 1 2 show ?thesis
    by (cases r1; cases r2) (simp_all add: loadProduct_def Let_def)
qed (simp_all add: loadProduct_def Let_def)

lemma loadProduct_failure:
  assumes "fst (loadProduct h response productIdentifier s) \<noteq> Inr ()"
  shows "popupContent (snd (loadProduct h response productIdentifier s)) = popupContent s
       \<and> (\<exists>events. trace (snd (loadProduct h response productIdentifier s)) =
                      trace s @ events @ [ConsoleError ''Error loading product:''])"
proof (cases response)
  case (Parsed p)
  let ?s0 = "emit (Fetch (''/products/'' @ productIdentifier @ ''.js'')) s\<lparr>currentProduct := Some p\<rparr>"
  obtain r1 s1 where init: "initializeVariants ?s0 = (r1, s1)"
    by (cases "initializeVariants ?s0")
  obtain r2 s2 where render: "renderProductPopup h s1 = (r2, s2)"
    by (cases "renderProductPopup h s1")
  from initializeVariants_frame(3,4) [of ?s0] init
  have s1: "popupContent s1 = popupContent s"
    "trace s1 = trace s @ [Fetch (''/products/'' @ productIdentifier @ ''.js'')]"
    by simp_all
  show ?thesis
  proof (cases r1)
    case (Inl e)
    with Parsed init s1 show ?thesis
      by (simp add: loadProduct_def Let_def)
  next
    case (Inr u)
    show ?thesis
    proof (cases r2)
      case (Inl e)
      with render renderProductPopup_throws [of h s1 e] have "s2 = s1" by simp
      with Parsed init render Inr Inl s1 show ?thesis
        by (simp add: loadProduct_def Let_def)
    next
      case right: (Inr u')
      with Parsed init render Inr assms show ?thesis
        by (simp add: loadProduct_def Let_def)
    qed
  qed
qed (simp_all add: loadProduct_def Let_def)

lemma loadProduct_not_parsed:
  assumes "\<forall>p. response \<noteq> Parsed p"
  shows "fst (loadProduct h response productIdentifier s) \<noteq> Inr ()
       \<and> currentProduct (snd (loadProduct h response productIdentifier s)) = currentProduct s
       \<and> selectedVariants (snd (loadProduct h response productIdentifier s)) = selectedVariants s"
  using assms by (cases response) (simp_all add: loadProduct_def Let_def)

text \<open>
  C8.  For a hotspot click that carries a product handle or id, \<^verbatim>\<open>handleHotspotClick\<close>
  returns normally and ends with \<^verbatim>\<open>openPopup\<close>, whether \<^verbatim>\<open>loadProduct\<close> succeeds or
  fails; with the overlay ref bound, as \<^verbatim>\<open>requiredRefs\<close> demands, the popup is then open.
  When \<^verbatim>\<open>loadProduct\<close> fails, the error is logged to the console and not rethrown, and the
  popup content is what it was before (stale, or empty when nothing was rendered yet);
  when the request itself fails, the current product and the selection are the old ones
  too.
\<close>

theorem handleHotspotClick_opens:
  assumes "truthy (productHandle spot) \<or> truthy (productId spot)"
  shows "fst (handleHotspotClick h response spot this) = Inr ()
       \<and> (\<exists>s. snd (handleHotspotClick h response spot this) = openPopup s)
       \<and> (ref_popupOverlay this \<longrightarrow>
            isPopupOpen (snd (handleHotspotClick h response spot this)))
       \<and> (fst (loadProduct h response
                  (if truthy (productHandle spot) then the (productHandle spot)
                   else the (productId spot)) this) \<noteq> Inr () \<longrightarrow>
            ConsoleError ''Error loading product:''
              \<in> set (trace (snd (handleHotspotClick h response spot this)))
          \<and> popupContent (snd (handleHotspotClick h response spot this)) = popupContent this)
       \<and> ((\<forall>p. response \<noteq> Parsed p) \<longrightarrow>
            fst (loadProduct h response
                  (if truthy (productHandle spot) then the (productHandle spot)
                   else the (productId spot)) this) \<noteq> Inr ()
          \<and> currentProduct (snd (handleHotspotClick h response spot this))
              = currentProduct this
          \<and> selectedVariants (snd (handleHotspotClick h response spot this))
              = selectedVariants this)"
proof -
  let ?pid = "if truthy (productHandle spot) then the (productHandle spot)
              else the (productId spot)"
  obtain r s1 where load: "loadProduct h response ?pid this = (r, s1)"
    by (cases "loadProduct h response ?pid this")
  from loadProduct_overlay [of h response ?pid this] load
  have overlay: "ref_popupOverlay s1 = ref_popupOverlay this" by simp
  show ?thesis
  proof (cases r)
    case (Inr u)
    with assms load have click: "handleHotspotClick h response spot this = (Inr (), openPopup s1)"
      by (auto simp: handleHotspotClick_def)
    have ok: "fst (loadProduct h response ?pid this) = Inr ()"
      using load Inr by simp
    have "\<exists>p. response = Parsed p"
      using loadProduct_not_parsed [of response h ?pid this] ok by blast
    with click overlay ok show ?thesis by auto
  next
    case (Inl e)
    with assms load have click: "handleHotspotClick h response spot this =
        (Inr (), openPopup (emit (ConsoleError ''Error loading product:'') s1))"
      by (auto simp: handleHotspotClick_def)
    have failed: "fst (loadProduct h response ?pid this) \<noteq> Inr ()"
      using load Inl by simp
    from loadProduct_failure [OF failed] load
    have stale: "popupContent s1 = popupContent this" by simp
    have kept: "currentProduct s1 = currentProduct this \<and> selectedVariants s1 = selectedVariants this"
      if "\<forall>p. response \<noteq> Parsed p"
      using loadProduct_not_parsed [OF that, of h ?pid this] load by simp
    from click overlay failed stale kept show ?thesis by auto
  qed
qed

lemma tee_hotspot_facts:
  "truthy (productHandle tee_hotspot)" "ref_popupOverlay mounted" "popupContent mounted = None"
  "\<not> isPopupOpen mounted"
  by (simp_all add: tee_hotspot_def truthy_def mounted_def isPopupOpen_def)

text \<open>A click on the tee's hotspot, the product request answered with status 404.\<close>

theorem handleHotspotClick_opens_witness:
  "(truthy (productHandle tee_hotspot) \<or> truthy (productId tee_hotspot))
   \<and> \<not> isPopupOpen mounted
   \<and> fst (handleHotspotClick browser (NotOk 404 None) tee_hotspot mounted) = Inr ()
   \<and> isPopupOpen (snd (handleHotspotClick browser (NotOk 404 None) tee_hotspot mounted))
   \<and> popupContent (snd (handleHotspotClick browser (NotOk 404 None) tee_hotspot mounted)) = None
   \<and> isPopupOpen (snd (handleHotspotClick browser (Parsed tee) tee_hotspot mounted))"
proof -
  have carries: "truthy (productHandle tee_hotspot) \<or> truthy (productId tee_hotspot)"
    using tee_hotspot_facts by blast
  have missing: "\<forall>p. NotOk 404 None \<noteq> (Parsed p :: product fetched)" by simp
  note failed = handleHotspotClick_opens [OF carries, of browser "NotOk 404 None" mounted]
  note loaded = handleHotspotClick_opens [OF carries, of browser "Parsed tee" mounted]
  from failed tee_hotspot_facts(2)
  have 1: "fst (handleHotspotClick browser (NotOk 404 None) tee_hotspot mounted) = Inr ()"
    and 2: "isPopupOpen (snd (handleHotspotClick browser (NotOk 404 None) tee_hotspot mounted))"
    by blast+
  from failed missing
  have "popupContent (snd (handleHotspotClick browser (NotOk 404 None) tee_hotspot mounted))
        = popupContent mounted"
    by blast
  then have 3: "popupContent (snd (handleHotspotClick browser (NotOk 404 None) tee_hotspot mounted))
        = None"
    by (simp add: tee_hotspot_facts)
  from loaded tee_hotspot_facts(2)
  have 4: "isPopupOpen (snd (handleHotspotClick browser (Parsed tee) tee_hotspot mounted))"
    by blast
  from carries tee_hotspot_facts(4) 1 2 3 4 show ?thesis by blast
qed

end
